theory Spec2Isabelle
  imports Main
begin

section \<open>The types the templates are instantiated with\<close>

text \<open>
  \<^verbatim>\<open>ContainerPrinter.hpp\<close> is a header of templates: what it does is decided by the type it
  is instantiated with, at compile time. The embedding therefore has the types as data.
  Types are the cv-unqualified object types that template argument deduction gives for
  \<^verbatim>\<open>const ContainerType&\<close>.

  The header names only a few types: \<^verbatim>\<open>char\<close>, \<^verbatim>\<open>wchar_t\<close>, built-in arrays,
  \<^verbatim>\<open>std::basic_string\<close>, \<^verbatim>\<open>std::pair\<close>, \<^verbatim>\<open>std::tuple\<close> and \<^verbatim>\<open>std::set\<close>. Every other class type
  is seen through what it declares only, so a class is described by its declarations:
  \<^item> \<open>m_begin\<close>, \<open>m_end\<close>: the member functions \<^verbatim>\<open>begin()\<close> and \<^verbatim>\<open>end()\<close>;
  \<^item> \<open>m_iterator\<close>: the member type \<^verbatim>\<open>iterator\<close>;
  \<^item> \<open>m_random_access\<close>: its iterators are random-access, so \<^verbatim>\<open>std::end(c) - 1\<close> is an
    expression;
  \<^item> \<open>m_back\<close>: the member function \<^verbatim>\<open>back()\<close>;
  \<^item> the member type \<^verbatim>\<open>value_type\<close>, when declared, which is also the type of the elements.
\<close>

record class_members =
  m_begin :: bool
  m_end :: bool
  m_iterator :: bool
  m_random_access :: bool
  m_back :: bool

text \<open>
  The flag of \<open>Class_t\<close> and \<open>Derived_t\<close> says whether the global namespace is one of the
  associated namespaces of the class (the class, one of its bases or one of its template
  type arguments is declared there); it matters for name lookup only.
  \<open>Derived_t g b\<close> is a class publicly derived from \<open>b\<close> that declares no member of its
  own, like \<^verbatim>\<open>VectorWrapper\<close> of the unit tests. The traits, comparator and allocator
  arguments of the standard templates play no role and are left out.
\<close>

datatype cpp_type =
    Int_t
  | Char_t
  | WChar_t
  | Char16_t
  | Array_t cpp_type nat
  | BasicString_t cpp_type
  | Pair_t cpp_type cpp_type
  | Tuple_t "cpp_type list"
  | Set_t cpp_type
  | Class_t bool class_members "cpp_type option"
  | Derived_t bool cpp_type

text \<open>What the standard library declares in the class templates the header names, and
  what a class inherits from its public base.\<close>

fun has_begin :: "cpp_type \<Rightarrow> bool" where
  "has_begin (BasicString_t c) = True"
| "has_begin (Set_t e) = True"
| "has_begin (Class_t g m v) = m_begin m"
| "has_begin (Derived_t g b) = has_begin b"
| "has_begin t = False"

fun has_end :: "cpp_type \<Rightarrow> bool" where
  "has_end (BasicString_t c) = True"
| "has_end (Set_t e) = True"
| "has_end (Class_t g m v) = m_end m"
| "has_end (Derived_t g b) = has_end b"
| "has_end t = False"

fun value_type :: "cpp_type \<Rightarrow> cpp_type option" where
  "value_type (BasicString_t c) = Some c"
| "value_type (Set_t e) = Some e"
| "value_type (Class_t g m v) = v"
| "value_type (Derived_t g b) = value_type b"
| "value_type t = None"

fun has_iterator :: "cpp_type \<Rightarrow> bool" where
  "has_iterator (BasicString_t c) = True"
| "has_iterator (Set_t e) = True"
| "has_iterator (Class_t g m v) = m_iterator m"
| "has_iterator (Derived_t g b) = has_iterator b"
| "has_iterator t = False"

text \<open>The iterators of \<^verbatim>\<open>std::set\<close> are bidirectional, and it has no \<^verbatim>\<open>back()\<close>.\<close>

fun random_access :: "cpp_type \<Rightarrow> bool" where
  "random_access (BasicString_t c) = True"
| "random_access (Set_t e) = False"
| "random_access (Class_t g m v) = m_random_access m"
| "random_access (Derived_t g b) = random_access b"
| "random_access t = False"

fun has_back :: "cpp_type \<Rightarrow> bool" where
  "has_back (BasicString_t c) = True"
| "has_back (Set_t e) = False"
| "has_back (Class_t g m v) = m_back m"
| "has_back (Derived_t g b) = has_back b"
| "has_back t = False"

text \<open>Some class templates of the standard library, by their declarations:
  \<^verbatim>\<open>std::vector\<close> (and \<^verbatim>\<open>std::deque\<close>, which declares the same) and \<^verbatim>\<open>std::list\<close>, whose
  iterators are bidirectional. A template type argument brings its associated namespaces
  along.\<close>

fun assoc_global :: "cpp_type \<Rightarrow> bool" where
  "assoc_global (Array_t e n) = assoc_global e"
| "assoc_global (BasicString_t c) = assoc_global c"
| "assoc_global (Pair_t a b) = (assoc_global a \<or> assoc_global b)"
| "assoc_global (Tuple_t ts) = list_ex assoc_global ts"
| "assoc_global (Set_t e) = assoc_global e"
| "assoc_global (Class_t g m v) = g"
| "assoc_global (Derived_t g b) = g"
| "assoc_global t = False"

definition vector_t :: "cpp_type \<Rightarrow> cpp_type" where
  "vector_t e = Class_t (assoc_global e)
     \<lparr>m_begin = True, m_end = True, m_iterator = True, m_random_access = True, m_back = True\<rparr>
     (Some e)"

definition list_t :: "cpp_type \<Rightarrow> cpp_type" where
  "list_t e = Class_t (assoc_global e)
     \<lparr>m_begin = True, m_end = True, m_iterator = True, m_random_access = False, m_back = True\<rparr>
     (Some e)"

section \<open>Traits: the classifier\<close>

text \<open>
  \<^verbatim>\<open>Traits::is_printable_as_container\<close> is a primary template (value \<^verbatim>\<open>false\<close>) and six
  partial specializations, in the order of the source. For a type, the compiler takes the
  most specialized of the specializations that match, and the primary template when none
  matches.
\<close>

datatype specialization =
    Structural
  | Pair_spec
  | Array_spec
  | Narrow_array_spec
  | Wide_array_spec
  | String_spec

definition specializations :: "specialization list" where
  "specializations =
     [Structural, Pair_spec, Array_spec, Narrow_array_spec, Wide_array_spec, String_spec]"

text \<open>\<open>Structural\<close> matches when the four operands of \<^verbatim>\<open>void_t\<close> are well-formed:
  \<^verbatim>\<open>decltype(std::declval<Type&>().begin())\<close>, the same for \<^verbatim>\<open>end()\<close>,
  \<^verbatim>\<open>typename Type::value_type\<close> and \<^verbatim>\<open>typename Type::iterator\<close>. The others match a form
  of type.\<close>

fun matches :: "specialization \<Rightarrow> cpp_type \<Rightarrow> bool" where
  "matches Structural t =
     (has_begin t \<and> has_end t \<and> value_type t \<noteq> None \<and> has_iterator t)"
| "matches Pair_spec t = (case t of Pair_t a b \<Rightarrow> True | _ \<Rightarrow> False)"
| "matches Array_spec t = (case t of Array_t e n \<Rightarrow> True | _ \<Rightarrow> False)"
| "matches Narrow_array_spec t = (case t of Array_t e n \<Rightarrow> e = Char_t | _ \<Rightarrow> False)"
| "matches Wide_array_spec t = (case t of Array_t e n \<Rightarrow> e = WChar_t | _ \<Rightarrow> False)"
| "matches String_spec t = (case t of BasicString_t c \<Rightarrow> True | _ \<Rightarrow> False)"

fun spec_value :: "specialization \<Rightarrow> bool" where
  "spec_value Structural = True"
| "spec_value Pair_spec = True"
| "spec_value Array_spec = True"
| "spec_value Narrow_array_spec = False"
| "spec_value Wide_array_spec = False"
| "spec_value String_spec = False"

text \<open>The partial ordering of the specializations: \<^verbatim>\<open>char[N]\<close> and \<^verbatim>\<open>wchar_t[N]\<close> are
  instances of \<^verbatim>\<open>ArrayType[ArraySize]\<close>, and \<^verbatim>\<open>std::basic_string<C, T, A>\<close> is an instance of
  the \<^verbatim>\<open>Type\<close> of the structural specialization, whose second argument is \<^verbatim>\<open>void\<close> too.\<close>

fun more_specialized :: "specialization \<Rightarrow> specialization \<Rightarrow> bool" where
  "more_specialized Narrow_array_spec Array_spec = True"
| "more_specialized Wide_array_spec Array_spec = True"
| "more_specialized String_spec Structural = True"
| "more_specialized s s' = False"

text \<open>The most specialized of the matching specializations: those that are more
  specialized than every other matching one.\<close>

definition most_specialized :: "('s \<Rightarrow> 's \<Rightarrow> bool) \<Rightarrow> 's list \<Rightarrow> 's list" where
  "most_specialized ord cs =
     filter (\<lambda>s. list_all (\<lambda>s'. s' = s \<or> ord s s') cs) cs"

definition candidates :: "cpp_type \<Rightarrow> specialization list" where
  "candidates t = filter (\<lambda>s. matches s t) specializations"

definition selected :: "cpp_type \<Rightarrow> specialization list" where
  "selected t = most_specialized more_specialized (candidates t)"

text \<open>The value of the selected specialization; \<^verbatim>\<open>false\<close>, the value of the primary
  template, when no specialization matches.\<close>

definition is_printable_as_container :: "cpp_type \<Rightarrow> bool" where
  "is_printable_as_container t =
     (case selected t of [] \<Rightarrow> False | s # ss \<Rightarrow> spec_value s)"

definition is_printable_as_container_v :: "cpp_type \<Rightarrow> bool" where
  "is_printable_as_container_v t = is_printable_as_container t"

section \<open>Printer: the delimiters\<close>

text \<open>\<^verbatim>\<open>delimiter_values<DelimiterType>\<close>: the member type \<^verbatim>\<open>type\<close> and three strings of that
  character type. A wide literal \<^verbatim>\<open>L"["\<close> is the characters of \<^verbatim>\<open>"["\<close> with \<open>char_type\<close>
  \<^verbatim>\<open>wchar_t\<close>.\<close>

record delimiter_values =
  char_type :: cpp_type
  prefix :: string
  delimiter :: string
  postfix :: string

text \<open>\<^verbatim>\<open>Printer::delimiters<ContainerType, DelimiterType>\<close>: the primary template declares
  \<^verbatim>\<open>values\<close> and never defines it; eight partial specializations define it.\<close>

datatype delimiters_spec =
    Default_narrow
  | Default_wide
  | Set_narrow
  | Set_wide
  | Pair_narrow
  | Pair_wide
  | Tuple_narrow
  | Tuple_wide

definition delimiters_specs :: "delimiters_spec list" where
  "delimiters_specs =
     [Default_narrow, Default_wide, Set_narrow, Set_wide, Pair_narrow, Pair_wide,
      Tuple_narrow, Tuple_wide]"

fun is_set :: "cpp_type \<Rightarrow> bool" where
  "is_set (Set_t e) = True"
| "is_set t = False"

fun is_pair :: "cpp_type \<Rightarrow> bool" where
  "is_pair (Pair_t a b) = True"
| "is_pair t = False"

fun is_tuple :: "cpp_type \<Rightarrow> bool" where
  "is_tuple (Tuple_t ts) = True"
| "is_tuple t = False"

fun applies :: "delimiters_spec \<Rightarrow> cpp_type \<Rightarrow> cpp_type \<Rightarrow> bool" where
  "applies Default_narrow t c = (c = Char_t)"
| "applies Default_wide t c = (c = WChar_t)"
| "applies Set_narrow t c = (is_set t \<and> c = Char_t)"
| "applies Set_wide t c = (is_set t \<and> c = WChar_t)"
| "applies Pair_narrow t c = (is_pair t \<and> c = Char_t)"
| "applies Pair_wide t c = (is_pair t \<and> c = WChar_t)"
| "applies Tuple_narrow t c = (is_tuple t \<and> c = Char_t)"
| "applies Tuple_wide t c = (is_tuple t \<and> c = WChar_t)"

fun values_of :: "delimiters_spec \<Rightarrow> delimiter_values" where
  "values_of Default_narrow =
     \<lparr>char_type = Char_t, prefix = ''['', delimiter = '', '', postfix = '']''\<rparr>"
| "values_of Default_wide =
     \<lparr>char_type = WChar_t, prefix = ''['', delimiter = '', '', postfix = '']''\<rparr>"
| "values_of Set_narrow =
     \<lparr>char_type = Char_t, prefix = ''{'', delimiter = '', '', postfix = ''}''\<rparr>"
| "values_of Set_wide =
     \<lparr>char_type = WChar_t, prefix = ''{'', delimiter = '', '', postfix = ''}''\<rparr>"
| "values_of Pair_narrow =
     \<lparr>char_type = Char_t, prefix = ''('', delimiter = '', '', postfix = '')''\<rparr>"
| "values_of Pair_wide =
     \<lparr>char_type = WChar_t, prefix = ''('', delimiter = '', '', postfix = '')''\<rparr>"
| "values_of Tuple_narrow =
     \<lparr>char_type = Char_t, prefix = ''<'', delimiter = '', '', postfix = ''>''\<rparr>"
| "values_of Tuple_wide =
     \<lparr>char_type = WChar_t, prefix = ''<'', delimiter = '', '', postfix = ''>''\<rparr>"

text \<open>A specialization for a class template is more specialized than the default of the
  same character type.\<close>

fun more_specific :: "delimiters_spec \<Rightarrow> delimiters_spec \<Rightarrow> bool" where
  "more_specific Set_narrow Default_narrow = True"
| "more_specific Pair_narrow Default_narrow = True"
| "more_specific Tuple_narrow Default_narrow = True"
| "more_specific Set_wide Default_wide = True"
| "more_specific Pair_wide Default_wide = True"
| "more_specific Tuple_wide Default_wide = True"
| "more_specific s s' = False"

definition chosen :: "cpp_type \<Rightarrow> cpp_type \<Rightarrow> delimiters_spec list" where
  "chosen t c = most_specialized more_specific (filter (\<lambda>s. applies s t c) delimiters_specs)"

text \<open>\<^verbatim>\<open>Printer::delimiters<ContainerType, DelimiterType>::values\<close> as a constant expression:
  \<open>None\<close> when it has no definition (the primary template) or no single specialization is
  chosen.\<close>

definition delimiters :: "cpp_type \<Rightarrow> cpp_type \<Rightarrow> delimiter_values option" where
  "delimiters t c = (case chosen t c of [s] \<Rightarrow> Some (values_of s) | _ \<Rightarrow> None)"

section \<open>Which \<^verbatim>\<open>operator<<\<close> an insertion uses\<close>

text \<open>
  The inserters of the standard library before C++20 (the header is C++14 code, and its
  tests are built with GCC 9), for a stream of character type \<open>c\<close> and an operand of
  type \<open>t\<close>:
  \<^item> \<open>As_number\<close>: an \<^verbatim>\<open>int\<close>; and a \<^verbatim>\<open>wchar_t\<close> or \<^verbatim>\<open>char16_t\<close> that is not the stream's
    character type, which is promoted to an integer and printed as its code;
  \<^item> \<open>As_character\<close>: a \<^verbatim>\<open>char\<close>, on every stream, and the stream's own character type;
  \<^item> \<open>As_string\<close>: a \<^verbatim>\<open>std::basic_string\<close> of the stream's character type, also as the
    public base of a class; an array of \<^verbatim>\<open>char\<close> or of the stream's character type, which
    decays to a C string;
  \<^item> \<open>As_pointer\<close>: every other array, which decays to a pointer, converts to
    \<^verbatim>\<open>const void*\<close> and is printed as an address.
  The other types of the model have no standard inserter, and no class of the model
  declares an inserter of its own.
\<close>

datatype inserter = As_number | As_character | As_string | As_pointer

fun string_base :: "cpp_type \<Rightarrow> cpp_type option" where
  "string_base (BasicString_t c) = Some c"
| "string_base (Derived_t g b) = string_base b"
| "string_base t = None"

fun c_string :: "cpp_type \<Rightarrow> cpp_type \<Rightarrow> bool" where
  "c_string c (Array_t e n) = (e = Char_t \<or> e = c)"
| "c_string c t = False"

fun standard_inserter :: "cpp_type \<Rightarrow> cpp_type \<Rightarrow> inserter option" where
  "standard_inserter c Int_t = Some As_number"
| "standard_inserter c Char_t = Some As_character"
| "standard_inserter c WChar_t = Some (if c = WChar_t then As_character else As_number)"
| "standard_inserter c Char16_t = Some (if c = Char16_t then As_character else As_number)"
| "standard_inserter c (Array_t e n) =
     Some (if c_string c (Array_t e n) then As_string else As_pointer)"
| "standard_inserter c (BasicString_t c') = (if c' = c then Some As_string else None)"
| "standard_inserter c (Derived_t g b) =
     (if string_base b = Some c then Some As_string else None)"
| "standard_inserter c t = None"

definition std_inserter :: "cpp_type \<Rightarrow> cpp_type \<Rightarrow> bool" where
  "std_inserter c t = (standard_inserter c t \<noteq> None)"

text \<open>
  The header declares its \<^verbatim>\<open>operator<<\<close> in the global namespace (lines 324 to 337),
  after namespace \<^verbatim>\<open>Printer\<close> (lines 118 to 319). Where a program inserts a value
  (\<open>Call_site\<close>, after the header is included) ordinary lookup finds it. Inside
  \<^verbatim>\<open>Printer::PrintingHelper\<close> (\<open>In_printer\<close>) the operand of \<^verbatim>\<open>stream << value\<close> is
  type-dependent and the operator is not declared yet, so the two-phase lookup of C++
  finds it by argument-dependent lookup only, at the point of instantiation: when the
  global namespace is an associated namespace of the operand's type. The associated
  namespace of \<^verbatim>\<open>std::vector<int>\<close> is \<^verbatim>\<open>std\<close> alone.
\<close>

datatype site = Call_site | In_printer

fun finds_operator :: "site \<Rightarrow> cpp_type \<Rightarrow> bool" where
  "finds_operator Call_site t = True"
| "finds_operator In_printer t = assoc_global t"

datatype overload = Container_operator | Standard_inserter | No_overload

text \<open>
  The header's operator takes part when it is found and \<^verbatim>\<open>std::enable_if_t\<close> lets it. It
  binds \<^verbatim>\<open>const ContainerType&\<close> to the operand itself, so it is a better match than a
  standard inserter that converts the operand (an array to \<^verbatim>\<open>const void*\<close>, a class to its
  base). The inserter of a C string is as good a match, since the decay of an array
  counts as none, and it is the more specialized template: it is the one chosen for an
  array of the stream's character type.
\<close>

definition resolve :: "site \<Rightarrow> cpp_type \<Rightarrow> cpp_type \<Rightarrow> overload" where
  "resolve st c t =
     (if finds_operator st t \<and> is_printable_as_container_v t \<and> \<not> c_string c t
      then Container_operator
      else if std_inserter c t then Standard_inserter
      else No_overload)"

section \<open>Which instantiations are well-formed\<close>

text \<open>\<^verbatim>\<open>std::begin\<close>, \<^verbatim>\<open>std::end\<close> and \<^verbatim>\<open>std::distance\<close> take a class with \<^verbatim>\<open>begin()\<close> and
  \<^verbatim>\<open>end()\<close>, or an array; the iterators of an array are pointers.\<close>

fun is_array :: "cpp_type \<Rightarrow> bool" where
  "is_array (Array_t e n) = True"
| "is_array t = False"

definition std_begin_end :: "cpp_type \<Rightarrow> bool" where
  "std_begin_end t = (is_array t \<or> (has_begin t \<and> has_end t))"

definition end_minus_one :: "cpp_type \<Rightarrow> bool" where
  "end_minus_one t = (is_array t \<or> random_access t)"

fun element_type :: "cpp_type \<Rightarrow> cpp_type option" where
  "element_type (Array_t e n) = Some e"
| "element_type t = value_type t"

lemma value_type_size: "value_type t = Some e \<Longrightarrow> size e < size t"
  by (induction t rule: value_type.induct) auto

lemma element_type_size: "element_type t = Some e \<Longrightarrow> size e < size t"
  by (cases t) (auto dest: value_type_size)

text \<open>
  The two overloads of \<^verbatim>\<open>Printer::PrintingHelper\<close>, and when their bodies are well-formed
  for a stream of character type \<open>c\<close>.
  \<open>PrintingHelper_well_formed c t\<close> is the first overload with \<^verbatim>\<open>ContainerType = t\<close>. It
  needs, line by line: the delimiters as a constant (250); \<^verbatim>\<open>std::begin\<close> and \<^verbatim>\<open>std::end\<close>
  (252); \<^verbatim>\<open>std::end(container) - 1\<close> (259); \<^verbatim>\<open>container.back()\<close> (265); the insertion of an
  element (262, 265).
  \<open>PrintingHelper_pair_well_formed c a b\<close> is the second overload, for
  \<^verbatim>\<open>std::pair<a, b>\<close>: the delimiters (281) and the insertion of both members (289, 291).
  \<open>insertable st c t\<close>: the expression \<^verbatim>\<open>stream << value\<close> is well-formed at \<open>st\<close> for a
  value of type \<open>t\<close>; when it uses the header's operator, the operator's body is
  instantiated, and overload resolution takes the second \<^verbatim>\<open>PrintingHelper\<close> for a pair,
  the first otherwise.
\<close>

function PrintingHelper_well_formed :: "cpp_type \<Rightarrow> cpp_type \<Rightarrow> bool"
  and PrintingHelper_pair_well_formed :: "cpp_type \<Rightarrow> cpp_type \<Rightarrow> cpp_type \<Rightarrow> bool"
  and insertable :: "site \<Rightarrow> cpp_type \<Rightarrow> cpp_type \<Rightarrow> bool" where
  "PrintingHelper_well_formed c t =
     (delimiters t c \<noteq> None \<and> std_begin_end t \<and> end_minus_one t \<and> has_back t \<and>
      (case element_type t of None \<Rightarrow> False | Some e \<Rightarrow> insertable In_printer c e))"
| "PrintingHelper_pair_well_formed c a b =
     (delimiters (Pair_t a b) c \<noteq> None \<and> insertable In_printer c a \<and>
      insertable In_printer c b)"
| "insertable st c t =
     (case resolve st c t of
        Container_operator \<Rightarrow>
          (case t of
             Pair_t a b \<Rightarrow> PrintingHelper_pair_well_formed c a b
           | _ \<Rightarrow> PrintingHelper_well_formed c t)
      | Standard_inserter \<Rightarrow> True
      | No_overload \<Rightarrow> False)"
  by pat_completeness auto
termination
  by (relation "measure (\<lambda>x. case x of
          Inl (c, t) \<Rightarrow> 2 * size t
        | Inr (Inl (c, a, b)) \<Rightarrow> 2 * size (Pair_t a b)
        | Inr (Inr (st, c, t)) \<Rightarrow> 2 * size t + 1)")
     (auto dest: element_type_size value_type_size)

declare PrintingHelper_well_formed.simps [simp del]
declare PrintingHelper_pair_well_formed.simps [simp del]
declare insertable.simps [simp del]

text \<open>The body of the header's \<^verbatim>\<open>operator<<\<close> for \<^verbatim>\<open>ContainerType = t\<close>.\<close>

definition instantiates :: "cpp_type \<Rightarrow> cpp_type \<Rightarrow> bool" where
  "instantiates c t =
     (case t of
        Pair_t a b \<Rightarrow> PrintingHelper_pair_well_formed c a b
      | _ \<Rightarrow> PrintingHelper_well_formed c t)"

section \<open>Values and streams\<close>

text \<open>
  A value carries its type. \<open>CharV t n\<close> is the character with code \<open>n\<close> of the character
  type \<open>t\<close>. \<open>StrV t txt\<close> is a string with the characters \<open>txt\<close>: a \<^verbatim>\<open>std::basic_string\<close>,
  or an array of \<^verbatim>\<open>char\<close> or \<^verbatim>\<open>wchar_t\<close> that ends with a null character. \<open>ObjV t xs\<close> is
  an object of the class or array type \<open>t\<close> whose elements, in the order of iteration,
  are \<open>xs\<close>. Characters are those with a code below 256, in every width.
\<close>

datatype val =
    IntV int
  | CharV cpp_type nat
  | StrV cpp_type string
  | PairV val val
  | TupleV "val list"
  | ObjV cpp_type "val list"

fun type_of :: "val \<Rightarrow> cpp_type" where
  "type_of (IntV i) = Int_t"
| "type_of (CharV t n) = t"
| "type_of (StrV t txt) = t"
| "type_of (PairV a b) = Pair_t (type_of a) (type_of b)"
| "type_of (TupleV vs) = Tuple_t (map type_of vs)"
| "type_of (ObjV t xs) = t"

fun character_type :: "cpp_type \<Rightarrow> bool" where
  "character_type Char_t = True"
| "character_type WChar_t = True"
| "character_type Char16_t = True"
| "character_type t = False"

fun string_type :: "cpp_type \<Rightarrow> nat \<Rightarrow> bool" where
  "string_type (BasicString_t c) k = True"
| "string_type (Array_t e n) k = ((e = Char_t \<or> e = WChar_t) \<and> n = Suc k)"
| "string_type t k = False"

fun object_type :: "cpp_type \<Rightarrow> bool" where
  "object_type (Array_t e n) = (e \<noteq> Char_t \<and> e \<noteq> WChar_t)"
| "object_type (Set_t e) = True"
| "object_type (Class_t g m v) = True"
| "object_type (Derived_t g b) = True"
| "object_type t = False"

fun array_length_ok :: "cpp_type \<Rightarrow> nat \<Rightarrow> bool" where
  "array_length_ok (Array_t e n) k = (k = n)"
| "array_length_ok t k = True"

fun well_typed :: "val \<Rightarrow> bool" where
  "well_typed (IntV i) = True"
| "well_typed (CharV t n) = (character_type t \<and> n < 256)"
| "well_typed (StrV t txt) = string_type t (length txt)"
| "well_typed (PairV a b) = (well_typed a \<and> well_typed b)"
| "well_typed (TupleV vs) = list_all well_typed vs"
| "well_typed (ObjV t xs) =
     (object_type t \<and> array_length_ok t (length xs) \<and>
      (case element_type t of
         None \<Rightarrow> xs = []
       | Some e \<Rightarrow> list_all (\<lambda>x. type_of x = e \<and> well_typed x) xs))"

text \<open>
  \<^verbatim>\<open>std::basic_ostream<CharacterType, TraitsType>\<close>, as far as an insertion reads or
  changes it:
  \<^item> \<open>ident\<close>: which stream object it is; \<open>char_t\<close>: its character type;
  \<^item> \<open>buffer\<close>: the characters written to it so far; its stream buffer takes every
    character, as that of a \<^verbatim>\<open>std::ostringstream\<close> does;
  \<^item> \<open>width\<close>: the field width, \<^verbatim>\<open>width()\<close>, which \<^verbatim>\<open>std::setw\<close> sets and every formatted
    insertion resets to 0;
  \<^item> \<open>fill\<close>: the fill character; \<open>adjust_left\<close>: the adjustment is \<^verbatim>\<open>std::left\<close>;
  \<^item> \<open>num_put\<close>: the characters, padding included, that the stream's locale and format
    flags give for an integer under a field width;
  \<^item> \<open>address_put\<close>: the same for the address of an object, which the program does
    not determine; an object is named by its value;
  \<^item> \<open>good\<close>: \<^verbatim>\<open>good()\<close>, no error bit is set; which bits are set when it is not good
    is left out;
  \<^item> \<open>raises\<close>: the exception mask has the bit that an insertion into a stream that is
    not good sets, so that insertion throws \<^verbatim>\<open>std::ios_base::failure\<close>.
\<close>

record ostream =
  ident :: nat
  char_t :: cpp_type
  buffer :: string
  width :: nat
  fill :: char
  adjust_left :: bool
  num_put :: "nat \<Rightarrow> int \<Rightarrow> string"
  address_put :: "nat \<Rightarrow> val \<Rightarrow> string"
  good :: bool
  raises :: bool

text \<open>
  A program that is ill-formed has no run. The result of an insertion is the stream after
  the run, or why there is none:
  \<^item> \<open>No_match\<close>: overload resolution finds no viable \<^verbatim>\<open>operator<<\<close>;
  \<^item> \<open>Disabled\<close>: \<^verbatim>\<open>std::enable_if_t\<close> removes the header's operator for this type;
  \<^item> \<open>Ill_formed\<close>: the operator is chosen and its body does not compile;
  \<^item> \<open>Thrown\<close>: the program compiles and the insertion throws.
\<close>

datatype error = No_match | Disabled | Ill_formed | Thrown

text \<open>
  A formatted output function of the standard library (\<^verbatim>\<open>[ostream.formatted.reqmts]\<close>):
  it constructs a sentry; when the stream is good it writes the characters and resets the
  field width; when the stream is not good it writes nothing, sets \<^verbatim>\<open>failbit\<close> and throws
  if the exception mask says so.
\<close>

definition formatted_output :: "ostream \<Rightarrow> string \<Rightarrow> error + ostream" where
  "formatted_output stream cs =
     (if good stream then Inr (stream\<lparr>buffer := buffer stream @ cs, width := 0\<rparr>)
      else if raises stream then Inl Thrown
      else Inr stream)"

text \<open>The padding of a string or a character to the field width: the fill characters come
  after it when the adjustment is \<^verbatim>\<open>left\<close>, and before it otherwise.\<close>

definition pad :: "ostream \<Rightarrow> string \<Rightarrow> string" where
  "pad stream txt =
     (if adjust_left stream then txt @ replicate (width stream - length txt) (fill stream)
      else replicate (width stream - length txt) (fill stream) @ txt)"

text \<open>\<^verbatim>\<open>stream << p\<close> for a pointer \<open>p\<close> to a string of the stream's character type.\<close>

definition write_str :: "ostream \<Rightarrow> string \<Rightarrow> error + ostream" where
  "write_str stream txt = formatted_output stream (pad stream txt)"

text \<open>The operand of a standard inserter: the integer that is printed for it, and its
  characters. A C string ends before its first null character; a string object has the
  characters that are its elements.\<close>

fun numeric :: "val \<Rightarrow> int" where
  "numeric (IntV i) = i"
| "numeric (CharV t n) = int n"
| "numeric v = 0"

fun c_string_of :: "val list \<Rightarrow> string" where
  "c_string_of (CharV t n # xs) = (if n = 0 then [] else char_of n # c_string_of xs)"
| "c_string_of xs = []"

fun characters :: "val \<Rightarrow> string" where
  "characters (CharV t n) = [char_of n]"
| "characters (StrV t txt) = txt"
| "characters (ObjV t xs) =
     (if is_array t then c_string_of xs else concat (map characters xs))"
| "characters v = []"

text \<open>\<^verbatim>\<open>stream << value\<close> by the standard inserter for the type of the value.\<close>

definition std_insert :: "ostream \<Rightarrow> val \<Rightarrow> error + ostream" where
  "std_insert stream v =
     (case standard_inserter (char_t stream) (type_of v) of
        None \<Rightarrow> Inl No_match
      | Some As_number \<Rightarrow>
          formatted_output stream (num_put stream (width stream) (numeric v))
      | Some As_character \<Rightarrow> formatted_output stream (pad stream (characters v))
      | Some As_string \<Rightarrow> formatted_output stream (pad stream (characters v))
      | Some As_pointer \<Rightarrow>
          formatted_output stream (address_put stream (width stream) v))"

section \<open>Printer: the printing routine\<close>

text \<open>A statement after another: the second runs on the stream that the first leaves,
  unless the first has no result.\<close>

definition and_then :: "error + 'a \<Rightarrow> ('a \<Rightarrow> error + 'b) \<Rightarrow> error + 'b" where
  "and_then r k = (case r of Inl e \<Rightarrow> Inl e | Inr s \<Rightarrow> k s)"

text \<open>\<^verbatim>\<open>std::for_each(first, last, f)\<close> over the elements of a range, for an \<open>f\<close> that writes
  to the stream it captured by reference.\<close>

fun for_each :: "val list \<Rightarrow> (ostream \<Rightarrow> val \<Rightarrow> error + ostream) \<Rightarrow> ostream \<Rightarrow> error + ostream" where
  "for_each [] f stream = Inr stream"
| "for_each (x # xs) f stream = and_then (f stream x) (for_each xs f)"

text \<open>
  The first overload of \<^verbatim>\<open>PrintingHelper\<close>, lines 246 to 266. \<open>ins\<close> is the insertion
  \<^verbatim>\<open>stream << value\<close> of an element, as the instantiation resolves it. The range
  \<^verbatim>\<open>[std::begin(container), std::end(container) - 1)\<close> is all elements but the last.
\<close>

definition PrintingHelper ::
  "(ostream \<Rightarrow> val \<Rightarrow> error + ostream) \<Rightarrow> ostream \<Rightarrow> cpp_type \<Rightarrow> val list \<Rightarrow> error + ostream" where
  "PrintingHelper ins stream t container =
     (case delimiters t (char_t stream) of
        None \<Rightarrow> Inl Ill_formed
      | Some d \<Rightarrow>
          if \<not> PrintingHelper_well_formed (char_t stream) t then Inl Ill_formed
          else if length container = 0 then Inr stream
          else
            and_then (write_str stream (prefix d)) (\<lambda>s.
            and_then (for_each (butlast container)
                        (\<lambda>s v. and_then (ins s v) (\<lambda>s'. write_str s' (delimiter d))) s) (\<lambda>s.
            and_then (ins s (last container)) (\<lambda>s'. write_str s' (postfix d)))))"

text \<open>The second overload, for \<^verbatim>\<open>std::pair\<close>, lines 277 to 293; \<^verbatim>\<open>unqualified_t\<close> of the
  type of \<^verbatim>\<open>container\<close> is the pair type itself.\<close>

definition PrintingHelper_pair ::
  "(ostream \<Rightarrow> val \<Rightarrow> error + ostream) \<Rightarrow> ostream \<Rightarrow> val \<Rightarrow> val \<Rightarrow> error + ostream" where
  "PrintingHelper_pair ins stream first second =
     (case delimiters (Pair_t (type_of first) (type_of second)) (char_t stream) of
        None \<Rightarrow> Inl Ill_formed
      | Some d \<Rightarrow>
          if \<not> PrintingHelper_pair_well_formed (char_t stream) (type_of first) (type_of second)
          then Inl Ill_formed
          else
            and_then (write_str stream (prefix d)) (\<lambda>s.
            and_then (ins s first) (\<lambda>s.
            and_then (write_str s (delimiter d)) (\<lambda>s.
            and_then (ins s second) (\<lambda>s. write_str s (postfix d))))))"

text \<open>\<^verbatim>\<open>ContainerPrinter(container).PrintTo(stream)\<close>: the class keeps a reference to the
  container and hands it to \<^verbatim>\<open>PrintingHelper\<close>; overload resolution takes the second
  overload for a pair. A value that is neither has no \<^verbatim>\<open>std::begin\<close>.\<close>

fun components :: "val \<Rightarrow> val list" where
  "components (PairV a b) = [a, b]"
| "components (TupleV vs) = vs"
| "components (ObjV t xs) = xs"
| "components v = []"

fun ContainerPrinter_PrintTo ::
  "(ostream \<Rightarrow> val \<Rightarrow> error + ostream) \<Rightarrow> ostream \<Rightarrow> val \<Rightarrow> error + ostream" where
  "ContainerPrinter_PrintTo ins stream (PairV a b) = PrintingHelper_pair ins stream a b"
| "ContainerPrinter_PrintTo ins stream (ObjV t xs) = PrintingHelper ins stream t xs"
| "ContainerPrinter_PrintTo ins stream v = Inl Ill_formed"

lemma components_size: "x \<in> set (components v) \<Longrightarrow> size x < size v"
proof -
  have elem: "y \<in> set ys \<Longrightarrow> size y < Suc (size_list size ys)" for y :: val and ys
    by (induction ys) auto
  show "x \<in> set (components v) \<Longrightarrow> size x < size v"
    by (cases v) (auto dest: elem)
qed

lemma for_each_cong [fundef_cong]:
  "xs = ys \<Longrightarrow> (\<And>s x. x \<in> set ys \<Longrightarrow> f s x = g s x) \<Longrightarrow> s = s' \<Longrightarrow>
   for_each xs f s = for_each ys g s'"
  by (induction ys arbitrary: xs s s') (auto simp: and_then_def split: sum.splits)

lemma ContainerPrinter_PrintTo_cong [fundef_cong]:
  assumes "v = v'" and "stream = stream'"
    and "\<And>s x. x \<in> set (components v') \<Longrightarrow> ins s x = ins' s x"
  shows "ContainerPrinter_PrintTo ins stream v = ContainerPrinter_PrintTo ins' stream' v'"
proof (cases v')
  case (PairV a b)
  have "ins s a = ins' s a" and "ins s b = ins' s b" for s
    using assms(3) PairV by simp_all
  with assms(1,2) PairV show ?thesis
    by (simp add: PrintingHelper_pair_def cong: option.case_cong if_cong)
next
  case (ObjV t xs)
  have loop: "for_each (butlast xs) (\<lambda>s v. and_then (ins s v) (k s)) s0 =
        for_each (butlast xs) (\<lambda>s v. and_then (ins' s v) (k s)) s0"
    for k :: "ostream \<Rightarrow> ostream \<Rightarrow> error + ostream" and s0
    using assms(3) ObjV by (intro for_each_cong) (auto dest: in_set_butlastD)
  have final: "xs \<noteq> [] \<Longrightarrow> ins s (last xs) = ins' s (last xs)" for s
    using assms(3) ObjV by simp
  show ?thesis
    using assms(1,2) ObjV
    by (simp add: PrintingHelper_def loop final cong: option.case_cong if_cong)
qed (use assms in simp_all)

text \<open>
  \<open>shl st stream v\<close> is the expression \<^verbatim>\<open>stream << v\<close> at \<open>st\<close>; \<open>operator_shl\<close> is the
  header's \<^verbatim>\<open>operator<<\<close>, lines 324 to 337, which returns the stream it was given. The
  insertions inside \<^verbatim>\<open>PrintingHelper\<close> are resolved inside namespace \<^verbatim>\<open>Printer\<close>.
\<close>

function shl :: "site \<Rightarrow> ostream \<Rightarrow> val \<Rightarrow> error + ostream"
  and operator_shl :: "ostream \<Rightarrow> val \<Rightarrow> error + ostream" where
  "shl st stream v =
     (case resolve st (char_t stream) (type_of v) of
        Container_operator \<Rightarrow> operator_shl stream v
      | Standard_inserter \<Rightarrow> std_insert stream v
      | No_overload \<Rightarrow> Inl No_match)"
| "operator_shl stream container =
     (if \<not> is_printable_as_container_v (type_of container) then Inl Disabled
      else ContainerPrinter_PrintTo (shl In_printer) stream container)"
  by pat_completeness auto
termination
  by (relation "measure (\<lambda>x. case x of
          Inl (st, stream, v) \<Rightarrow> 2 * size v + 1
        | Inr (stream, v) \<Rightarrow> 2 * size v)")
     (auto dest: components_size)

declare shl.simps [simp del]
declare operator_shl.simps [simp del]

section \<open>The specification's words\<close>

text \<open>The classes of types that the specification's decision policy for the classifier
  names.\<close>

definition narrow_char_array :: "cpp_type \<Rightarrow> bool" where
  "narrow_char_array t = (case t of Array_t e n \<Rightarrow> e = Char_t | _ \<Rightarrow> False)"

definition wide_char_array :: "cpp_type \<Rightarrow> bool" where
  "wide_char_array t = (case t of Array_t e n \<Rightarrow> e = WChar_t | _ \<Rightarrow> False)"

definition string_instantiation :: "cpp_type \<Rightarrow> bool" where
  "string_instantiation t = (case t of BasicString_t c \<Rightarrow> True | _ \<Rightarrow> False)"

definition container_interface :: "cpp_type \<Rightarrow> bool" where
  "container_interface t =
     (has_begin t \<and> has_end t \<and> value_type t \<noteq> None \<and> has_iterator t)"

fun derived_from_string :: "cpp_type \<Rightarrow> bool" where
  "derived_from_string (Derived_t g b) = (string_instantiation b \<or> derived_from_string b)"
| "derived_from_string t = False"

text \<open>The decimal digits of an integer, as a stream with its default format flags prints
  them.\<close>

definition digit :: "nat \<Rightarrow> char" where
  "digit n = ''0123456789'' ! n"

function show_nat :: "nat \<Rightarrow> string" where
  "show_nat n = (if n < 10 then [digit n] else show_nat (n div 10) @ [digit (n mod 10)])"
  by pat_completeness auto
termination
  by (relation "measure (\<lambda>n. n)") auto

declare show_nat.simps [simp del]

definition show_int :: "int \<Rightarrow> string" where
  "show_int i = (if i < 0 then CHR ''-'' # show_nat (nat (- i)) else show_nat (nat i))"

text \<open>The text the specification gives for a value: prefix, the elements joined by the
  separator, postfix; nothing for a sequence without elements; the tuple and the set with
  their own brackets.\<close>

fun join :: "string \<Rightarrow> string list \<Rightarrow> string" where
  "join sep [] = []"
| "join sep [x] = x"
| "join sep (x # y # ys) = x @ sep @ join sep (y # ys)"

definition bracketed :: "cpp_type \<Rightarrow> cpp_type \<Rightarrow> string list \<Rightarrow> string" where
  "bracketed c t texts =
     (case delimiters t c of
        None \<Rightarrow> []
      | Some d \<Rightarrow> prefix d @ join (delimiter d) texts @ postfix d)"

fun spec_rendering :: "cpp_type \<Rightarrow> val \<Rightarrow> string" where
  "spec_rendering c (IntV i) = show_int i"
| "spec_rendering c (CharV t n) = [char_of n]"
| "spec_rendering c (StrV t cs) = cs"
| "spec_rendering c (PairV a b) =
     bracketed c (Pair_t (type_of a) (type_of b)) [spec_rendering c a, spec_rendering c b]"
| "spec_rendering c (TupleV vs) =
     bracketed c (Tuple_t (map type_of vs)) (map (spec_rendering c) vs)"
| "spec_rendering c (ObjV t xs) =
     (if xs = [] then [] else bracketed c t (map (spec_rendering c) xs))"

section \<open>Streams and types of the examples\<close>

text \<open>
  \<^verbatim>\<open>std::cout\<close> as a program finds it: nothing written, no field width, the fill character
  a space, adjusted to the right, integers in decimal, good, no exceptions. The text of
  an address is not specified.
  \<^verbatim>\<open>VectorWrapper\<close> of the unit tests is declared in an unnamed namespace; \<open>int_vector\<close>
  is a class of the global namespace derived from \<^verbatim>\<open>std::vector<int>\<close>.
\<close>

definition decimal :: "nat \<Rightarrow> int \<Rightarrow> string" where
  "decimal w i = replicate (w - length (show_int i)) CHR '' '' @ show_int i"

definition cout :: ostream where
  "cout = \<lparr>ident = 1, char_t = Char_t, buffer = [], width = 0, fill = CHR '' '',
     adjust_left = False, num_put = decimal, address_put = undefined,
     good = True, raises = False\<rparr>"

definition VectorWrapper :: "cpp_type \<Rightarrow> cpp_type" where
  "VectorWrapper e = Derived_t False (vector_t e)"

definition int_vector :: cpp_type where
  "int_vector = Derived_t True (vector_t Int_t)"

section \<open>What an insertion does to its stream\<close>

text \<open>
  An insertion that returns has left its stream as it was, or has added characters to the
  buffer and reset the field width; nothing else of the stream changes. \<open>effect s e\<close> is
  the stream \<open>s\<close> after that: \<open>None\<close> for the stream left as it was, \<open>Some cs\<close> for the
  characters \<open>cs\<close> added and the width reset. \<open>after e1 e2\<close> is one effect followed by
  another.
\<close>

definition effect :: "ostream \<Rightarrow> string option \<Rightarrow> ostream" where
  "effect s e = (case e of None \<Rightarrow> s | Some cs \<Rightarrow> s\<lparr>buffer := buffer s @ cs, width := 0\<rparr>)"

fun after :: "string option \<Rightarrow> string option \<Rightarrow> string option" where
  "after None e = e"
| "after (Some a) None = Some a"
| "after (Some a) (Some b) = Some (a @ b)"

text \<open>\<open>same_format s1 s2\<close>: the two streams differ at most in which stream they are and
  in what has been written to them.\<close>

definition same_format :: "ostream \<Rightarrow> ostream \<Rightarrow> bool" where
  "same_format s1 s2 =
     (char_t s1 = char_t s2 \<and> width s1 = width s2 \<and> fill s1 = fill s2 \<and>
      adjust_left s1 = adjust_left s2 \<and> num_put s1 = num_put s2 \<and>
      address_put s1 = address_put s2 \<and> good s1 = good s2 \<and> raises s1 = raises s2)"

text \<open>\<open>same_outcome s1 s2 r1 r2\<close>: the insertion with result \<open>r1\<close> on the stream \<open>s1\<close>
  and the one with result \<open>r2\<close> on \<open>s2\<close> end alike: neither has a result, for the same
  reason, or both return and have had the same effect.\<close>

definition same_outcome :: "ostream \<Rightarrow> ostream \<Rightarrow> error + ostream \<Rightarrow> error + ostream \<Rightarrow> bool" where
  "same_outcome s1 s2 r1 r2 =
     (case r1 of
        Inl e \<Rightarrow> r2 = Inl e
      | Inr s1' \<Rightarrow> \<exists>e. s1' = effect s1 e \<and> r2 = Inr (effect s2 e))"

text \<open>The characters that the insertion of an element inside \<^verbatim>\<open>PrintingHelper\<close> writes to
  a stream with the format of \<open>stream\<close>, after the prefix or a separator, when the field
  width is 0.\<close>

definition inserted_text :: "ostream \<Rightarrow> val \<Rightarrow> string" where
  "inserted_text stream v =
     (case shl In_printer (stream\<lparr>buffer := [], width := 0\<rparr>) v of
        Inl e \<Rightarrow> []
      | Inr s \<Rightarrow> buffer s)"

text \<open>\<open>printed r\<close>: what the buffer of the stream holds when the insertion with result \<open>r\<close>
  has returned.\<close>

definition printed :: "error + ostream \<Rightarrow> error + string" where
  "printed r = (case r of Inl e \<Rightarrow> Inl e | Inr s \<Rightarrow> Inr (buffer s))"

text \<open>\<open>returns c f\<close>: the insertion \<open>f\<close> returns on every good stream of character type
  \<open>c\<close>. \<open>keeps f\<close>: the insertion \<open>f\<close> leaves a stream that is not good as it is.\<close>

definition returns :: "cpp_type \<Rightarrow> (ostream \<Rightarrow> error + ostream) \<Rightarrow> bool" where
  "returns c f = (\<forall>s. good s \<and> char_t s = c \<longrightarrow> (\<exists>e. f s = Inr (effect s e)))"

definition keeps :: "(ostream \<Rightarrow> error + ostream) \<Rightarrow> bool" where
  "keeps f = (\<forall>s s'. \<not> good s \<and> f s = Inr s' \<longrightarrow> s' = s)"

section \<open>Properties of the classifier and of the delimiters\<close>

lemma classifier_iff:
  "is_printable_as_container t =
     (\<not> narrow_char_array t \<and> \<not> wide_char_array t \<and> \<not> string_instantiation t \<and>
      (container_interface t \<or> is_pair t \<or> is_array t))"
  by (cases t)
     (auto simp: is_printable_as_container_def selected_def most_specialized_def candidates_def
        specializations_def narrow_char_array_def wide_char_array_def string_instantiation_def
        container_interface_def)

text \<open>No type makes the choice of a specialization ambiguous, and the primary template is
  used only when no specialization matches.\<close>

lemma selected_unambiguous:
  "length (selected t) \<le> 1 \<and> (selected t = [] \<longleftrightarrow> candidates t = [])"
  by (cases t)
     (auto simp: selected_def most_specialized_def candidates_def specializations_def)

lemma string_type_not_printable: "string_type t k \<Longrightarrow> \<not> is_printable_as_container t"
  by (cases t)
     (auto simp: classifier_iff narrow_char_array_def wide_char_array_def
        string_instantiation_def container_interface_def)

lemma printable_simps [simp]:
  "\<not> is_printable_as_container Int_t"
  "is_printable_as_container (Pair_t a b)"
  "\<not> is_printable_as_container (Tuple_t ts)"
  by (simp_all add: classifier_iff narrow_char_array_def wide_char_array_def
        string_instantiation_def container_interface_def)

lemma delimiters_table:
  "delimiters t c =
     (if c = Char_t \<or> c = WChar_t then
        Some \<lparr>char_type = c,
          prefix = (if is_set t then ''{'' else if is_pair t then ''(''
                    else if is_tuple t then ''<'' else ''[''),
          delimiter = '', '',
          postfix = (if is_set t then ''}'' else if is_pair t then '')''
                     else if is_tuple t then ''>'' else '']'')\<rparr>
      else None)"
  by (cases t; cases c)
     (simp_all add: delimiters_def chosen_def most_specialized_def delimiters_specs_def)

lemma chosen_single: "c = Char_t \<or> c = WChar_t \<Longrightarrow> \<exists>sp. chosen t c = [sp]"
  by (cases t) (auto simp: chosen_def most_specialized_def delimiters_specs_def)

lemma delimiters_prefix_nonempty: "delimiters t c = Some d \<Longrightarrow> prefix d \<noteq> []"
  by (auto simp: delimiters_table split: if_splits)


lemma c_string_simps [simp]:
  "\<not> c_string c (list_t e)" "\<not> c_string c (vector_t e)"
  by (simp_all add: list_t_def vector_t_def)

section \<open>The outcome of an insertion depends on the value and on the format of the stream\<close>

lemma effect_None [simp]: "effect s None = s"
  by (simp add: effect_def)

lemma effect_fields [simp]:
  "ident (effect s e) = ident s" "char_t (effect s e) = char_t s"
  "fill (effect s e) = fill s" "adjust_left (effect s e) = adjust_left s"
  "num_put (effect s e) = num_put s" "address_put (effect s e) = address_put s"
  "good (effect s e) = good s" "raises (effect s e) = raises s"
  by (simp_all add: effect_def split: option.splits)

lemma effect_Some [simp]:
  "buffer (effect s (Some cs)) = buffer s @ cs" "width (effect s (Some cs)) = 0"
  by (simp_all add: effect_def)

lemma effect_after: "effect (effect s e1) e2 = effect s (after e1 e2)"
  by (cases e1; cases e2) (simp_all add: effect_def)

lemma same_format_refl [simp]: "same_format s s"
  by (simp add: same_format_def)

lemma same_format_effect: "same_format s1 s2 \<Longrightarrow> same_format (effect s1 e) (effect s2 e)"
  by (cases e) (simp_all add: same_format_def effect_def)

lemma same_outcome_Inl [simp]: "same_outcome s1 s2 (Inl e) (Inl e)"
  by (simp add: same_outcome_def)

lemma same_outcome_effect [simp]: "same_outcome s1 s2 (Inr (effect s1 e)) (Inr (effect s2 e))"
  by (auto simp: same_outcome_def)

lemma same_outcome_Inr [simp]: "same_outcome s1 s2 (Inr s1) (Inr s2)"
  using same_outcome_effect[of s1 s2 None] by simp

lemma same_outcome_and_then:
  assumes "same_format s1 s2" and "same_outcome s1 s2 r1 r2"
    and "\<And>t1 t2. same_format t1 t2 \<Longrightarrow> same_outcome t1 t2 (k t1) (k t2)"
  shows "same_outcome s1 s2 (and_then r1 k) (and_then r2 k)"
proof (cases r1)
  case (Inl e)
  with assms(2) show ?thesis by (simp add: same_outcome_def and_then_def)
next
  case (Inr t)
  with assms(2) obtain e where e: "t = effect s1 e" "r2 = Inr (effect s2 e)"
    by (auto simp: same_outcome_def)
  have "same_outcome (effect s1 e) (effect s2 e) (k (effect s1 e)) (k (effect s2 e))"
    using assms(1) by (intro assms(3) same_format_effect)
  then show ?thesis
    using Inr e by (cases "k (effect s1 e)") (auto simp: same_outcome_def and_then_def effect_after)
qed

lemma formatted_output_uniform:
  "same_format s1 s2 \<Longrightarrow> same_outcome s1 s2 (formatted_output s1 cs) (formatted_output s2 cs)"
  using same_outcome_effect[of s1 s2 "Some cs"]
  by (simp add: formatted_output_def same_format_def effect_def)

lemma pad_uniform: "same_format s1 s2 \<Longrightarrow> pad s1 txt = pad s2 txt"
  by (simp add: pad_def same_format_def)

lemma write_str_uniform:
  "same_format s1 s2 \<Longrightarrow> same_outcome s1 s2 (write_str s1 txt) (write_str s2 txt)"
  by (simp add: write_str_def pad_uniform formatted_output_uniform)

lemma std_insert_uniform:
  "same_format s1 s2 \<Longrightarrow> same_outcome s1 s2 (std_insert s1 v) (std_insert s2 v)"
  using pad_uniform[of s1 s2]
  by (auto simp: std_insert_def formatted_output_uniform same_format_def
      split: option.splits inserter.splits)

lemma for_each_uniform:
  assumes "\<And>x t1 t2. x \<in> set xs \<Longrightarrow> same_format t1 t2 \<Longrightarrow> same_outcome t1 t2 (f t1 x) (f t2 x)"
    and "same_format s1 s2"
  shows "same_outcome s1 s2 (for_each xs f s1) (for_each xs f s2)"
  using assms
proof (induction xs arbitrary: s1 s2)
  case Nil
  then show ?case by simp
next
  case (Cons x xs)
  have head: "same_outcome s1 s2 (f s1 x) (f s2 x)"
    using Cons.prems by simp
  have rest: "same_outcome t1 t2 (for_each xs f t1) (for_each xs f t2)"
    if "same_format t1 t2" for t1 t2
    using Cons.prems(1) that by (intro Cons.IH) simp_all
  from same_outcome_and_then[OF Cons.prems(2) head rest] show ?case by simp
qed

lemma PrintingHelper_uniform:
  assumes ins: "\<And>x t1 t2. x \<in> set xs \<Longrightarrow> same_format t1 t2 \<Longrightarrow>
             same_outcome t1 t2 (ins t1 x) (ins t2 x)"
    and fmt: "same_format s1 s2"
  shows "same_outcome s1 s2 (PrintingHelper ins s1 t xs) (PrintingHelper ins s2 t xs)"
proof -
  have c: "char_t s2 = char_t s1"
    using fmt by (simp add: same_format_def)
  show ?thesis
  proof (cases "delimiters t (char_t s1)")
    case None
    with c show ?thesis by (simp add: PrintingHelper_def)
  next
    case (Some d)
    show ?thesis
    proof (cases "PrintingHelper_well_formed (char_t s1) t \<and> xs \<noteq> []")
      case False
      with Some c show ?thesis by (auto simp: PrintingHelper_def)
    next
      case True
      let ?f = "\<lambda>s v. and_then (ins s v) (\<lambda>s'. write_str s' (delimiter d))"
      let ?k2 = "\<lambda>s. and_then (ins s (last xs)) (\<lambda>s'. write_str s' (postfix d))"
      let ?k1 = "\<lambda>s. and_then (for_each (butlast xs) ?f s) ?k2"
      have step: "same_outcome t1 t2 (?f t1 x) (?f t2 x)"
        if "x \<in> set (butlast xs)" "same_format t1 t2" for x t1 t2
        using that(2) ins[OF in_set_butlastD[OF that(1)] that(2)]
        by (rule same_outcome_and_then) (rule write_str_uniform)
      have final: "same_outcome t1 t2 (?k2 t1) (?k2 t2)" if "same_format t1 t2" for t1 t2
        using that ins[OF _ that, of "last xs"] True
        by (intro same_outcome_and_then write_str_uniform) simp_all
      have loop: "same_outcome t1 t2 (?k1 t1) (?k1 t2)" if "same_format t1 t2" for t1 t2
        using that by (intro same_outcome_and_then for_each_uniform step final)
      have "same_outcome s1 s2 (and_then (write_str s1 (prefix d)) ?k1)
          (and_then (write_str s2 (prefix d)) ?k1)"
        using fmt by (intro same_outcome_and_then write_str_uniform loop)
      then show ?thesis
        using True Some c by (simp add: PrintingHelper_def)
    qed
  qed
qed

lemma PrintingHelper_pair_uniform:
  assumes a: "\<And>t1 t2. same_format t1 t2 \<Longrightarrow> same_outcome t1 t2 (ins t1 a) (ins t2 a)"
    and b: "\<And>t1 t2. same_format t1 t2 \<Longrightarrow> same_outcome t1 t2 (ins t1 b) (ins t2 b)"
    and fmt: "same_format s1 s2"
  shows "same_outcome s1 s2 (PrintingHelper_pair ins s1 a b) (PrintingHelper_pair ins s2 a b)"
proof -
  have c: "char_t s2 = char_t s1"
    using fmt by (simp add: same_format_def)
  show ?thesis
  proof (cases "delimiters (Pair_t (type_of a) (type_of b)) (char_t s1)")
    case None
    with c show ?thesis by (simp add: PrintingHelper_pair_def)
  next
    case (Some d)
    show ?thesis
    proof (cases "PrintingHelper_pair_well_formed (char_t s1) (type_of a) (type_of b)")
      case False
      with Some c show ?thesis by (simp add: PrintingHelper_pair_def)
    next
      case True
      let ?k4 = "\<lambda>s. and_then (ins s b) (\<lambda>s. write_str s (postfix d))"
      let ?k3 = "\<lambda>s. and_then (write_str s (delimiter d)) ?k4"
      let ?k2 = "\<lambda>s. and_then (ins s a) ?k3"
      have k4: "same_outcome t1 t2 (?k4 t1) (?k4 t2)" if "same_format t1 t2" for t1 t2
        using that by (intro same_outcome_and_then write_str_uniform b)
      have k3: "same_outcome t1 t2 (?k3 t1) (?k3 t2)" if "same_format t1 t2" for t1 t2
        using that by (intro same_outcome_and_then write_str_uniform k4)
      have k2: "same_outcome t1 t2 (?k2 t1) (?k2 t2)" if "same_format t1 t2" for t1 t2
        using that by (intro same_outcome_and_then a k3)
      have "same_outcome s1 s2 (and_then (write_str s1 (prefix d)) ?k2)
          (and_then (write_str s2 (prefix d)) ?k2)"
        using fmt by (intro same_outcome_and_then write_str_uniform k2)
      then show ?thesis
        using True Some c by (simp add: PrintingHelper_pair_def)
    qed
  qed
qed

lemma shl_uniform:
  "same_format s1 s2 \<Longrightarrow> same_outcome s1 s2 (shl st s1 v) (shl st s2 v)"
proof (induction v arbitrary: st s1 s2)
  case (PairV a b)
  have c: "char_t s2 = char_t s1"
    using PairV.prems by (simp add: same_format_def)
  have "same_outcome s1 s2 (PrintingHelper_pair (shl In_printer) s1 a b)
      (PrintingHelper_pair (shl In_printer) s2 a b)"
    using PairV.prems by (intro PrintingHelper_pair_uniform PairV.IH)
  with c show ?case
    using std_insert_uniform[OF PairV.prems, of "PairV a b"]
    by (simp add: shl.simps operator_shl.simps split: overload.splits)
next
  case (ObjV t xs)
  have c: "char_t s2 = char_t s1"
    using ObjV.prems by (simp add: same_format_def)
  have "same_outcome s1 s2 (PrintingHelper (shl In_printer) s1 t xs)
      (PrintingHelper (shl In_printer) s2 t xs)"
    using ObjV.prems by (intro PrintingHelper_uniform ObjV.IH)
  with c show ?case
    using std_insert_uniform[OF ObjV.prems, of "ObjV t xs"]
    by (simp add: shl.simps operator_shl.simps split: overload.splits)
next
  case (IntV i)
  then have c: "char_t s2 = char_t s1"
    by (simp add: same_format_def)
  then show ?case
    using std_insert_uniform[OF IntV, of "IntV i"]
    by (simp add: shl.simps operator_shl.simps split: overload.splits)
next
  case (CharV t n)
  then have c: "char_t s2 = char_t s1"
    by (simp add: same_format_def)
  then show ?case
    using std_insert_uniform[OF CharV, of "CharV t n"]
    by (simp add: shl.simps operator_shl.simps split: overload.splits)
next
  case (StrV t cs)
  then have c: "char_t s2 = char_t s1"
    by (simp add: same_format_def)
  then show ?case
    using std_insert_uniform[OF StrV, of "StrV t cs"]
    by (simp add: shl.simps operator_shl.simps split: overload.splits)
next
  case (TupleV vs)
  then have c: "char_t s2 = char_t s1"
    by (simp add: same_format_def)
  then show ?case
    using std_insert_uniform[OF TupleV.prems, of "TupleV vs"]
    by (simp add: shl.simps operator_shl.simps split: overload.splits)
qed

lemma operator_shl_uniform:
  assumes "same_format s1 s2"
  shows "same_outcome s1 s2 (operator_shl s1 v) (operator_shl s2 v)"
proof (cases v)
  case (PairV a b)
  have "same_outcome s1 s2 (PrintingHelper_pair (shl In_printer) s1 a b)
      (PrintingHelper_pair (shl In_printer) s2 a b)"
    using assms by (intro PrintingHelper_pair_uniform shl_uniform)
  with PairV show ?thesis by (simp add: operator_shl.simps)
next
  case (ObjV t xs)
  have "same_outcome s1 s2 (PrintingHelper (shl In_printer) s1 t xs)
      (PrintingHelper (shl In_printer) s2 t xs)"
    using assms by (intro PrintingHelper_uniform shl_uniform)
  with ObjV show ?thesis by (simp add: operator_shl.simps)
qed (simp_all add: operator_shl.simps)

text \<open>An insertion that returns has had an effect on its stream, and nothing else.\<close>

lemma shl_effect: "shl st s v = Inr s' \<Longrightarrow> \<exists>e. s' = effect s e"
  using shl_uniform[of s s st v] by (auto simp: same_outcome_def)

lemma operator_shl_effect: "operator_shl s v = Inr s' \<Longrightarrow> \<exists>e. s' = effect s e"
  using operator_shl_uniform[of s s v] by (auto simp: same_outcome_def)

section \<open>A well-formed insertion into a good stream returns\<close>

lemma returnsI: "(\<And>s. good s \<Longrightarrow> char_t s = c \<Longrightarrow> \<exists>e. f s = Inr (effect s e)) \<Longrightarrow> returns c f"
  by (simp add: returns_def)

lemma returnsD: "returns c f \<Longrightarrow> good s \<Longrightarrow> char_t s = c \<Longrightarrow> \<exists>e. f s = Inr (effect s e)"
  by (simp add: returns_def)

lemma good_formatted_output:
  "good s \<Longrightarrow> formatted_output s cs = Inr (effect s (Some cs))"
  by (simp add: formatted_output_def effect_def)

lemma good_write_str: "good s \<Longrightarrow> write_str s cs = Inr (effect s (Some (pad s cs)))"
  by (simp add: write_str_def good_formatted_output)

lemma returns_write_str: "returns c (\<lambda>s. write_str s cs)"
  by (rule returnsI) (auto simp: good_write_str)

lemma returns_and_then:
  assumes "returns c f" and "returns c g"
  shows "returns c (\<lambda>s. and_then (f s) g)"
proof (rule returnsI)
  fix s :: ostream assume s: "good s" "char_t s = c"
  from returnsD[OF assms(1) s] obtain e1 where e1: "f s = Inr (effect s e1)" by blast
  from returnsD[OF assms(2), of "effect s e1"] s obtain e2
    where "g (effect s e1) = Inr (effect (effect s e1) e2)" by auto
  with e1 show "\<exists>e. and_then (f s) g = Inr (effect s e)"
    by (auto simp: and_then_def effect_after)
qed

lemma returns_for_each:
  assumes "\<And>x. x \<in> set xs \<Longrightarrow> returns c (\<lambda>s. f s x)"
  shows "returns c (for_each xs f)"
  using assms
proof (induction xs)
  case Nil
  show ?case
    by (rule returnsI) (use effect_None in \<open>auto intro: exI[of _ None]\<close>)
next
  case (Cons x xs)
  have "returns c (\<lambda>s. and_then (f s x) (for_each xs f))"
    using Cons by (intro returns_and_then[where f = "\<lambda>s. f s x"]) simp_all
  then show ?case by (simp add: returns_def)
qed

lemma returns_PrintingHelper:
  assumes "\<And>x. x \<in> set xs \<Longrightarrow> returns c (\<lambda>s. ins s x)"
    and "PrintingHelper_well_formed c t"
  shows "returns c (\<lambda>s. PrintingHelper ins s t xs)"
proof (rule returnsI)
  fix s :: ostream assume s: "good s" "char_t s = c"
  from assms(2) obtain d where d: "delimiters t c = Some d"
    by (auto simp: PrintingHelper_well_formed.simps)
  show "\<exists>e. PrintingHelper ins s t xs = Inr (effect s e)"
  proof (cases "xs = []")
    case True
    with d s assms(2) show ?thesis
      by (auto simp: PrintingHelper_def intro: exI[of _ None])
  next
    case False
    let ?f = "\<lambda>s v. and_then (ins s v) (\<lambda>s'. write_str s' (delimiter d))"
    let ?k2 = "\<lambda>s. and_then (ins s (last xs)) (\<lambda>s'. write_str s' (postfix d))"
    let ?k1 = "\<lambda>s. and_then (for_each (butlast xs) ?f s) ?k2"
    have step: "returns c (\<lambda>s. ?f s x)" if "x \<in> set (butlast xs)" for x
      by (rule returns_and_then[OF assms(1)[OF in_set_butlastD[OF that]] returns_write_str])
    have k2: "returns c ?k2"
      by (rule returns_and_then[OF assms(1)[OF last_in_set[OF False]] returns_write_str])
    have k1: "returns c ?k1"
      by (rule returns_and_then[OF returns_for_each k2]) (rule step)
    have "returns c (\<lambda>s. and_then (write_str s (prefix d)) ?k1)"
      by (rule returns_and_then[OF returns_write_str k1])
    from returnsD[OF this s] False d s assms(2) show ?thesis
      by (simp add: PrintingHelper_def)
  qed
qed

lemma returns_PrintingHelper_pair:
  assumes "returns c (\<lambda>s. ins s a)" and "returns c (\<lambda>s. ins s b)"
    and "PrintingHelper_pair_well_formed c (type_of a) (type_of b)"
  shows "returns c (\<lambda>s. PrintingHelper_pair ins s a b)"
proof (rule returnsI)
  fix s :: ostream assume s: "good s" "char_t s = c"
  from assms(3) obtain d where d: "delimiters (Pair_t (type_of a) (type_of b)) c = Some d"
    by (auto simp: PrintingHelper_pair_well_formed.simps)
  let ?k4 = "\<lambda>s. and_then (ins s b) (\<lambda>s. write_str s (postfix d))"
  let ?k3 = "\<lambda>s. and_then (write_str s (delimiter d)) ?k4"
  let ?k2 = "\<lambda>s. and_then (ins s a) ?k3"
  have k4: "returns c ?k4"
    by (rule returns_and_then[OF assms(2) returns_write_str])
  have k3: "returns c ?k3"
    by (rule returns_and_then[OF returns_write_str k4])
  have k2: "returns c ?k2"
    by (rule returns_and_then[OF assms(1) k3])
  have "returns c (\<lambda>s. and_then (write_str s (prefix d)) ?k2)"
    by (rule returns_and_then[OF returns_write_str k2])
  from returnsD[OF this s] d s assms(3) show "\<exists>e. PrintingHelper_pair ins s a b = Inr (effect s e)"
    by (simp add: PrintingHelper_pair_def)
qed

lemma returns_std_insert:
  assumes "resolve st c (type_of v) = Standard_inserter"
  shows "returns c (\<lambda>s. shl st s v)"
proof (rule returnsI)
  fix s :: ostream assume s: "good s" "char_t s = c"
  from assms have "std_inserter c (type_of v)"
    by (auto simp: resolve_def split: if_splits)
  then obtain k where "standard_inserter c (type_of v) = Some k"
    by (auto simp: std_inserter_def)
  with assms s show "\<exists>e. shl st s v = Inr (effect s e)"
    by (cases k) (auto simp: shl.simps std_insert_def good_formatted_output)
qed

lemma resolve_container:
  assumes "resolve st c t = Container_operator"
  shows "is_printable_as_container_v t"
  using assms by (auto simp: resolve_def split: if_splits)

lemma insertable_cases:
  assumes "insertable st c t"
  obtains (std) "resolve st c t = Standard_inserter"
  | (pair) a b where "t = Pair_t a b" "resolve st c t = Container_operator"
      "PrintingHelper_pair_well_formed c a b"
  | (object) "\<not> is_pair t" "resolve st c t = Container_operator"
      "PrintingHelper_well_formed c t"
  using assms
  by (cases "resolve st c t"; cases t) (auto simp: insertable.simps)

lemma well_formed_element:
  assumes "PrintingHelper_well_formed c t" and "well_typed (ObjV t xs)" and "x \<in> set xs"
  shows "well_typed x" and "insertable In_printer c (type_of x)"
  using assms
  by (auto simp: PrintingHelper_well_formed.simps list_all_iff split: option.splits)

text \<open>A well-formed insertion of a well-typed value into a good stream returns.\<close>

lemma shl_returns:
  "well_typed v \<Longrightarrow> insertable st c (type_of v) \<Longrightarrow> returns c (\<lambda>s. shl st s v)"
proof (induction v arbitrary: st)
  case (PairV a b)
  from PairV.prems(2) show ?case
  proof (cases rule: insertable_cases)
    case std
    then show ?thesis by (rule returns_std_insert)
  next
    case (pair a' b')
    then have wf: "PrintingHelper_pair_well_formed c (type_of a) (type_of b)" by simp
    then have "insertable In_printer c (type_of a)" "insertable In_printer c (type_of b)"
      by (simp_all add: PrintingHelper_pair_well_formed.simps)
    with PairV.IH PairV.prems(1)
    have "returns c (\<lambda>s. shl In_printer s a)" "returns c (\<lambda>s. shl In_printer s b)"
      by simp_all
    then have "returns c (\<lambda>s. PrintingHelper_pair (shl In_printer) s a b)"
      using wf by (rule returns_PrintingHelper_pair)
    with pair(2) show ?thesis
      by (simp add: returns_def shl.simps operator_shl.simps is_printable_as_container_v_def)
  next
    case object
    then show ?thesis by simp
  qed
next
  case (ObjV t xs)
  from ObjV.prems(2) show ?case
  proof (cases rule: insertable_cases)
    case std
    then show ?thesis by (rule returns_std_insert)
  next
    case (pair a b)
    with ObjV.prems(1) show ?thesis by simp
  next
    case object
    then have wf: "PrintingHelper_well_formed c t" by simp
    have "returns c (\<lambda>s. shl In_printer s x)" if "x \<in> set xs" for x
      using ObjV.IH[OF that] well_formed_element[OF wf ObjV.prems(1) that] by simp
    then have "returns c (\<lambda>s. PrintingHelper (shl In_printer) s t xs)"
      using wf by (rule returns_PrintingHelper)
    with object(2) resolve_container[OF object(2)] show ?thesis
      by (simp add: returns_def shl.simps operator_shl.simps)
  qed
next
  case (IntV i)
  from IntV.prems(2) show ?case
    by (cases rule: insertable_cases)
       (auto intro: returns_std_insert dest: resolve_container
          simp: is_printable_as_container_v_def PrintingHelper_well_formed.simps)
next
  case (CharV t n)
  from CharV.prems(2) show ?case
  proof (cases rule: insertable_cases)
    case std
    then show ?thesis by (rule returns_std_insert)
  next
    case (pair a b)
    with CharV.prems(1) show ?thesis by simp
  next
    case object
    with CharV.prems(1) show ?thesis
      by (cases t) (simp_all add: PrintingHelper_well_formed.simps)
  qed
next
  case (StrV t cs)
  from StrV.prems(2) show ?case
  proof (cases rule: insertable_cases)
    case std
    then show ?thesis by (rule returns_std_insert)
  next
    case (pair a b)
    with StrV.prems(1) show ?thesis by simp
  next
    case object
    with StrV.prems(1) string_type_not_printable[of t "length cs"] resolve_container[of st c t]
    show ?thesis by (simp add: is_printable_as_container_v_def)
  qed
next
  case (TupleV vs)
  from TupleV.prems(2) show ?case
    by (cases rule: insertable_cases)
       (auto simp: resolve_def std_inserter_def is_printable_as_container_v_def split: if_splits)
qed

section \<open>A stream that is not good is left as it is\<close>

lemma keepsD: "keeps f \<Longrightarrow> \<not> good s \<Longrightarrow> f s = Inr s' \<Longrightarrow> s' = s"
  by (simp add: keeps_def)

lemma keeps_formatted_output: "keeps (\<lambda>s. formatted_output s (h s))"
  by (auto simp: keeps_def formatted_output_def split: if_splits)

lemma keeps_write_str: "keeps (\<lambda>s. write_str s cs)"
  unfolding write_str_def by (rule keeps_formatted_output)

lemma keeps_and_then:
  assumes "keeps f" and "keeps g"
  shows "keeps (\<lambda>s. and_then (f s) g)"
  unfolding keeps_def
proof (intro allI impI)
  fix s s' :: ostream
  assume a: "\<not> good s \<and> and_then (f s) g = Inr s'"
  then obtain s1 where s1: "f s = Inr s1" "g s1 = Inr s'"
    by (cases "f s") (auto simp: and_then_def)
  with a keepsD[OF assms(1), of s s1] have "s1 = s" by simp
  with a s1 keepsD[OF assms(2), of s s'] show "s' = s" by simp
qed

lemma keeps_for_each:
  assumes "\<And>x. x \<in> set xs \<Longrightarrow> keeps (\<lambda>s. f s x)"
  shows "keeps (for_each xs f)"
  using assms
proof (induction xs)
  case Nil
  show ?case by (simp add: keeps_def)
next
  case (Cons x xs)
  have "keeps (\<lambda>s. and_then (f s x) (for_each xs f))"
    using Cons by (intro keeps_and_then[where f = "\<lambda>s. f s x"]) simp_all
  then show ?case by (simp add: keeps_def)
qed

lemma keeps_PrintingHelper:
  assumes "\<And>x. x \<in> set xs \<Longrightarrow> keeps (\<lambda>s. ins s x)"
  shows "keeps (\<lambda>s. PrintingHelper ins s t xs)"
  unfolding keeps_def
proof (intro allI impI)
  fix s s' :: ostream
  assume a: "\<not> good s \<and> PrintingHelper ins s t xs = Inr s'"
  then obtain d where d: "delimiters t (char_t s) = Some d"
    by (cases "delimiters t (char_t s)") (auto simp: PrintingHelper_def)
  show "s' = s"
  proof (cases "xs = []")
    case True
    with a d show ?thesis by (auto simp: PrintingHelper_def split: if_splits)
  next
    case False
    let ?f = "\<lambda>s v. and_then (ins s v) (\<lambda>s'. write_str s' (delimiter d))"
    let ?k2 = "\<lambda>s. and_then (ins s (last xs)) (\<lambda>s'. write_str s' (postfix d))"
    let ?k1 = "\<lambda>s. and_then (for_each (butlast xs) ?f s) ?k2"
    have step: "keeps (\<lambda>s. ?f s x)" if "x \<in> set (butlast xs)" for x
      by (rule keeps_and_then[OF assms[OF in_set_butlastD[OF that]] keeps_write_str])
    have k2: "keeps ?k2"
      by (rule keeps_and_then[OF assms[OF last_in_set[OF False]] keeps_write_str])
    have k1: "keeps ?k1"
      by (rule keeps_and_then[OF keeps_for_each k2]) (rule step)
    have "keeps (\<lambda>s. and_then (write_str s (prefix d)) ?k1)"
      by (rule keeps_and_then[OF keeps_write_str k1])
    from keepsD[OF this, of s s'] a d False show ?thesis
      by (auto simp: PrintingHelper_def split: if_splits)
  qed
qed

lemma keeps_PrintingHelper_pair:
  assumes "keeps (\<lambda>s. ins s a)" and "keeps (\<lambda>s. ins s b)"
  shows "keeps (\<lambda>s. PrintingHelper_pair ins s a b)"
  unfolding keeps_def
proof (intro allI impI)
  fix s s' :: ostream
  assume r: "\<not> good s \<and> PrintingHelper_pair ins s a b = Inr s'"
  then obtain d where d: "delimiters (Pair_t (type_of a) (type_of b)) (char_t s) = Some d"
    by (cases "delimiters (Pair_t (type_of a) (type_of b)) (char_t s)")
       (auto simp: PrintingHelper_pair_def)
  let ?k4 = "\<lambda>s. and_then (ins s b) (\<lambda>s. write_str s (postfix d))"
  let ?k3 = "\<lambda>s. and_then (write_str s (delimiter d)) ?k4"
  let ?k2 = "\<lambda>s. and_then (ins s a) ?k3"
  have k4: "keeps ?k4"
    by (rule keeps_and_then[OF assms(2) keeps_write_str])
  have k3: "keeps ?k3"
    by (rule keeps_and_then[OF keeps_write_str k4])
  have k2: "keeps ?k2"
    by (rule keeps_and_then[OF assms(1) k3])
  have "keeps (\<lambda>s. and_then (write_str s (prefix d)) ?k2)"
    by (rule keeps_and_then[OF keeps_write_str k2])
  from keepsD[OF this, of s s'] r d show "s' = s"
    by (auto simp: PrintingHelper_pair_def split: if_splits)
qed

lemma keeps_std_insert: "keeps (\<lambda>s. std_insert s v)"
  by (auto simp: keeps_def std_insert_def formatted_output_def
      split: option.splits inserter.splits if_splits)

lemma shl_keeps: "keeps (\<lambda>s. shl st s v)"
proof (induction v arbitrary: st)
  case (PairV a b)
  have "keeps (\<lambda>s. PrintingHelper_pair (shl In_printer) s a b)"
    by (intro keeps_PrintingHelper_pair PairV.IH)
  with keeps_std_insert[of "PairV a b"] show ?case
    by (auto simp: keeps_def shl.simps operator_shl.simps split: overload.splits if_splits)
next
  case (ObjV t xs)
  have "keeps (\<lambda>s. PrintingHelper (shl In_printer) s t xs)"
    by (intro keeps_PrintingHelper ObjV.IH)
  with keeps_std_insert[of "ObjV t xs"] show ?case
    by (auto simp: keeps_def shl.simps operator_shl.simps split: overload.splits if_splits)
next
  case (IntV i)
  with keeps_std_insert[of "IntV i"] show ?case
    by (auto simp: keeps_def shl.simps operator_shl.simps split: overload.splits if_splits)
next
  case (CharV t n)
  with keeps_std_insert[of "CharV t n"] show ?case
    by (auto simp: keeps_def shl.simps operator_shl.simps split: overload.splits if_splits)
next
  case (StrV t cs)
  with keeps_std_insert[of "StrV t cs"] show ?case
    by (auto simp: keeps_def shl.simps operator_shl.simps split: overload.splits if_splits)
next
  case (TupleV vs)
  with keeps_std_insert[of "TupleV vs"] show ?case
    by (auto simp: keeps_def shl.simps operator_shl.simps split: overload.splits if_splits)
qed

section \<open>What a well-formed insertion writes\<close>

lemma width_zero_effect: "width t = 0 \<Longrightarrow> effect t (Some []) = t"
  by (cases t) (simp add: effect_def)

lemma effect_text:
  "width t = 0 \<Longrightarrow> effect t e = effect t (Some (case e of None \<Rightarrow> [] | Some cs \<Rightarrow> cs))"
  by (cases e) (simp_all add: width_zero_effect)

lemma pad_width_zero: "width s = 0 \<Longrightarrow> pad s txt = txt"
  by (simp add: pad_def)

lemma same_format_ready:
  "same_format r s \<Longrightarrow> width r = 0 \<Longrightarrow> same_format r (effect s e)"
  by (cases e) (simp_all add: same_format_def)

lemma join_butlast_last:
  "xs \<noteq> [] \<Longrightarrow>
   concat (map (\<lambda>x. g x @ sep) (butlast xs)) @ g (last xs) = join sep (map g xs)"
proof (induction xs)
  case Nil
  then show ?case by simp
next
  case (Cons x xs)
  then show ?case by (cases xs) auto
qed

text \<open>The text of an element: on every stream with the format of \<open>stream\<close> and the field
  width 0, the insertion of the element adds \<open>inserted_text stream x\<close>.\<close>

lemma element_text:
  assumes "good stream" and "well_typed x"
    and "insertable In_printer (char_t stream) (type_of x)"
    and "same_format (stream\<lparr>width := 0\<rparr>) t"
  shows "shl In_printer t x = Inr (effect t (Some (inserted_text stream x)))"
proof -
  let ?r = "stream\<lparr>buffer := [], width := 0\<rparr>"
  have "returns (char_t stream) (\<lambda>s. shl In_printer s x)"
    using assms(2,3) by (rule shl_returns)
  from returnsD[OF this, of ?r] assms(1)
  obtain e where e: "shl In_printer ?r x = Inr (effect ?r e)" by auto
  have fmt: "same_format ?r t" and w: "width t = 0"
    using assms(4) by (simp_all add: same_format_def)
  from shl_uniform[OF fmt, of In_printer x] e
  obtain e' where e': "effect ?r e = effect ?r e'" "shl In_printer t x = Inr (effect t e')"
    by (auto simp: same_outcome_def)
  have "inserted_text stream x = buffer (effect ?r e')"
    using e e'(1) by (simp add: inserted_text_def)
  also have "\<dots> = (case e' of None \<Rightarrow> [] | Some cs \<Rightarrow> cs)"
    by (cases e') simp_all
  finally show ?thesis
    using e'(2) effect_text[OF w, of e'] by simp
qed

lemma for_each_separated:
  assumes "\<And>x t. x \<in> set xs \<Longrightarrow> same_format r t \<Longrightarrow> ins t x = Inr (effect t (Some (g x)))"
    and "same_format r s" and "width r = 0" and "good r"
  shows "for_each xs (\<lambda>s v. and_then (ins s v) (\<lambda>s'. write_str s' sep)) s =
         Inr (effect s (Some (concat (map (\<lambda>x. g x @ sep) xs))))"
  using assms(1,2)
proof (induction xs arbitrary: s)
  case Nil
  then have "width s = 0"
    using assms(3) by (simp add: same_format_def)
  then show ?case by (simp add: width_zero_effect)
next
  case (Cons x xs)
  let ?s1 = "effect s (Some (g x))"
  have s1: "ins s x = Inr ?s1"
    using Cons.prems by simp
  have "good ?s1" "width ?s1 = 0"
    using Cons.prems(2) assms(4) by (simp_all add: same_format_def)
  then have w: "write_str ?s1 sep = Inr (effect s (Some (g x @ sep)))"
    by (simp add: good_write_str pad_width_zero effect_after)
  have "same_format r (effect s (Some (g x @ sep)))"
    using Cons.prems(2) assms(3) by (rule same_format_ready)
  then have "for_each xs (\<lambda>s v. and_then (ins s v) (\<lambda>s'. write_str s' sep))
      (effect s (Some (g x @ sep))) =
    Inr (effect (effect s (Some (g x @ sep))) (Some (concat (map (\<lambda>x. g x @ sep) xs))))"
    using Cons.prems(1) by (intro Cons.IH) simp_all
  with s1 w show ?case
    by (simp add: and_then_def effect_after)
qed

lemma PrintingHelper_text:
  assumes ins: "\<And>x t. x \<in> set xs \<Longrightarrow> same_format (stream\<lparr>width := 0\<rparr>) t \<Longrightarrow>
             ins t x = Inr (effect t (Some (g x)))"
    and d: "delimiters t (char_t stream) = Some d"
    and wf: "PrintingHelper_well_formed (char_t stream) t"
    and good: "good stream" and ne: "xs \<noteq> []"
  shows "PrintingHelper ins stream t xs =
         Inr (effect stream
               (Some (pad stream (prefix d) @ join (delimiter d) (map g xs) @ postfix d)))"
proof -
  let ?r = "stream\<lparr>width := 0\<rparr>"
  let ?s1 = "effect stream (Some (pad stream (prefix d)))"
  let ?body = "concat (map (\<lambda>x. g x @ delimiter d) (butlast xs))"
  let ?s2 = "effect ?s1 (Some ?body)"
  let ?s3 = "effect ?s2 (Some (g (last xs)))"
  have r: "width ?r = 0" "good ?r"
    using good by simp_all
  have open_: "write_str stream (prefix d) = Inr ?s1"
    using good by (rule good_write_str)
  have f1: "same_format ?r ?s1"
    by (simp add: same_format_def)
  have loop: "for_each (butlast xs)
      (\<lambda>s v. and_then (ins s v) (\<lambda>s'. write_str s' (delimiter d))) ?s1 = Inr ?s2"
    using f1 r by (intro for_each_separated[where r = ?r] ins) (auto dest: in_set_butlastD)
  have f2: "same_format ?r ?s2"
    using f1 r(1) by (rule same_format_ready)
  have final: "ins ?s2 (last xs) = Inr ?s3"
    using ins[OF last_in_set[OF ne] f2] .
  have "good ?s3" "width ?s3 = 0"
    using good by simp_all
  then have close: "write_str ?s3 (postfix d) = Inr (effect ?s3 (Some (postfix d)))"
    by (simp add: good_write_str pad_width_zero)
  have "pad stream (prefix d) @ ?body @ g (last xs) @ postfix d =
        pad stream (prefix d) @ join (delimiter d) (map g xs) @ postfix d"
    using join_butlast_last[OF ne, of g "delimiter d"] by simp
  then have "effect ?s3 (Some (postfix d)) =
      effect stream (Some (pad stream (prefix d) @ join (delimiter d) (map g xs) @ postfix d))"
    by (simp add: effect_after)
  with open_ loop final close d wf ne show ?thesis
    by (simp add: PrintingHelper_def and_then_def)
qed

lemma PrintingHelper_pair_text:
  assumes a: "\<And>t. same_format (stream\<lparr>width := 0\<rparr>) t \<Longrightarrow> ins t a = Inr (effect t (Some ta))"
    and b: "\<And>t. same_format (stream\<lparr>width := 0\<rparr>) t \<Longrightarrow> ins t b = Inr (effect t (Some tb))"
    and d: "delimiters (Pair_t (type_of a) (type_of b)) (char_t stream) = Some d"
    and wf: "PrintingHelper_pair_well_formed (char_t stream) (type_of a) (type_of b)"
    and good: "good stream"
  shows "PrintingHelper_pair ins stream a b =
         Inr (effect stream
               (Some (pad stream (prefix d) @ ta @ delimiter d @ tb @ postfix d)))"
proof -
  let ?r = "stream\<lparr>width := 0\<rparr>"
  let ?s1 = "effect stream (Some (pad stream (prefix d)))"
  let ?s2 = "effect ?s1 (Some ta)"
  let ?s3 = "effect ?s2 (Some (delimiter d))"
  let ?s4 = "effect ?s3 (Some tb)"
  have w1: "write_str stream (prefix d) = Inr ?s1"
    using good by (rule good_write_str)
  have f1: "same_format ?r ?s1"
    by (simp add: same_format_def)
  have i1: "ins ?s1 a = Inr ?s2"
    using a[OF f1] .
  have "good ?s2" "width ?s2 = 0"
    using good by simp_all
  then have w2: "write_str ?s2 (delimiter d) = Inr ?s3"
    by (simp add: good_write_str pad_width_zero)
  have f3: "same_format ?r ?s3"
    by (simp add: same_format_def)
  have i2: "ins ?s3 b = Inr ?s4"
    using b[OF f3] .
  have "good ?s4" "width ?s4 = 0"
    using good by simp_all
  then have w3: "write_str ?s4 (postfix d) = Inr (effect ?s4 (Some (postfix d)))"
    by (simp add: good_write_str pad_width_zero)
  from w1 i1 w2 i2 w3 d wf show ?thesis
    by (simp add: PrintingHelper_pair_def and_then_def effect_after)
qed

section \<open>The claims\<close>

subsection \<open>The classifier\<close>

text \<open>
  Claim C2. The classifier follows the decision policy of the specification, first match
  first: it is false for the arrays of \<^verbatim>\<open>char\<close> and of \<^verbatim>\<open>wchar_t\<close> and for every
  instantiation of \<^verbatim>\<open>std::basic_string\<close>, whatever the character type; among the other
  types it is true for those that have \<^verbatim>\<open>begin()\<close>, \<^verbatim>\<open>end()\<close>, \<^verbatim>\<open>value_type\<close> and
  \<^verbatim>\<open>iterator\<close>, for \<^verbatim>\<open>std::pair\<close> and for the arrays of any other element type; it is false
  for every type left. "Narrow" and "wide" are read as the header's comments use them,
  for \<^verbatim>\<open>char\<close> and \<^verbatim>\<open>wchar_t\<close>, so an array of another character type, such as
  \<^verbatim>\<open>char16_t\<close>, is one of the other arrays; and the rule for the container interface is
  read after the exclusions, since a string instantiation has that interface as well.
\<close>

theorem classifier_decision_policy:
  "is_printable_as_container_v t =
     (if narrow_char_array t \<or> wide_char_array t \<or> string_instantiation t then False
      else (container_interface t \<or> is_pair t \<or> is_array t))"
  by (simp add: is_printable_as_container_v_def classifier_iff)

text \<open>The assertions of the unit tests on the classifier, and an array of \<^verbatim>\<open>char16_t\<close>.\<close>

theorem classifier_decision_policy_witness:
  "is_printable_as_container_v (vector_t Int_t) \<and>
   is_printable_as_container_v (list_t Int_t) \<and>
   is_printable_as_container_v (Set_t Int_t) \<and>
   is_printable_as_container_v (Array_t Int_t 10) \<and>
   is_printable_as_container_v (VectorWrapper Int_t) \<and>
   \<not> is_printable_as_container_v (BasicString_t Char_t) \<and>
   \<not> is_printable_as_container_v (BasicString_t WChar_t) \<and>
   is_printable_as_container_v (Array_t Char16_t 4)"
  by (simp add: classifier_decision_policy vector_t_def list_t_def VectorWrapper_def
        narrow_char_array_def wide_char_array_def string_instantiation_def
        container_interface_def)

text \<open>
  Claim C10. A class publicly derived, directly or through other classes, from an
  instantiation of \<^verbatim>\<open>std::basic_string\<close> is classified as a printable container: the
  structural specialization is the one selected for it, since the string specialization
  matches the instantiations of \<^verbatim>\<open>std::basic_string\<close> themselves only, which are classified
  false.
\<close>

theorem string_derived_class_is_printable:
  assumes "derived_from_string t"
  shows "is_printable_as_container_v t \<and> selected t = [Structural] \<and>
         \<not> matches String_spec t \<and> \<not> is_printable_as_container_v (BasicString_t c)"
proof -
  have iface: "container_interface t \<and> \<not> string_instantiation t \<and> \<not> is_array t \<and> \<not> is_pair t"
    using assms
    by (induction t rule: derived_from_string.induct)
       (auto simp: container_interface_def string_instantiation_def split: cpp_type.splits)
  then have sel: "selected t = [Structural]"
    by (cases t)
       (auto simp: selected_def most_specialized_def candidates_def specializations_def
          container_interface_def string_instantiation_def)
  have "\<not> matches String_spec t"
    using iface by (cases t) (simp_all add: string_instantiation_def)
  moreover have "\<not> is_printable_as_container_v (BasicString_t c)"
    by (simp add: is_printable_as_container_v_def classifier_iff string_instantiation_def)
  ultimately show ?thesis
    using sel by (simp add: is_printable_as_container_v_def is_printable_as_container_def)
qed

theorem string_derived_class_is_printable_witness:
  "is_printable_as_container_v (Derived_t False (BasicString_t Char_t)) \<and>
   is_printable_as_container_v (Derived_t True (Derived_t False (BasicString_t WChar_t))) \<and>
   \<not> is_printable_as_container_v (BasicString_t Char_t)"
  using string_derived_class_is_printable[of "Derived_t False (BasicString_t Char_t)" Char_t]
    string_derived_class_is_printable
      [of "Derived_t True (Derived_t False (BasicString_t WChar_t))" Char_t]
  by (simp add: string_instantiation_def)

subsection \<open>The delimiters\<close>

text \<open>
  Claim C7. For every container type and each of the two character widths, exactly one
  specialization of \<^verbatim>\<open>delimiters\<close> is chosen and the lookup gives exactly one triple: the
  braces for \<^verbatim>\<open>std::set\<close>, the parentheses for \<^verbatim>\<open>std::pair\<close>, the angle brackets for
  \<^verbatim>\<open>std::tuple\<close>, and for every other type the default square brackets; the separator is
  always a comma and a space, and the triple has the character type asked for.
\<close>

theorem delimiters_total_with_default:
  assumes "c = Char_t \<or> c = WChar_t"
  shows "(\<exists>sp. chosen t c = [sp]) \<and> (\<exists>!d. delimiters t c = Some d) \<and>
     delimiters t c =
       Some \<lparr>char_type = c,
         prefix = (if is_set t then ''{'' else if is_pair t then ''(''
                   else if is_tuple t then ''<'' else ''[''),
         delimiter = '', '',
         postfix = (if is_set t then ''}'' else if is_pair t then '')''
                    else if is_tuple t then ''>'' else '']'')\<rparr>"
  using assms chosen_single[of c t] by (auto simp: delimiters_table)

text \<open>The assertions of the unit tests on the delimiters, one of each kind.\<close>

theorem delimiters_total_with_default_witness:
  "delimiters (vector_t Int_t) WChar_t =
     Some \<lparr>char_type = WChar_t, prefix = ''['', delimiter = '', '', postfix = '']''\<rparr> \<and>
   delimiters (Set_t Int_t) Char_t =
     Some \<lparr>char_type = Char_t, prefix = ''{'', delimiter = '', '', postfix = ''}''\<rparr> \<and>
   delimiters (Pair_t Int_t Int_t) WChar_t =
     Some \<lparr>char_type = WChar_t, prefix = ''('', delimiter = '', '', postfix = '')''\<rparr> \<and>
   delimiters (Tuple_t [Int_t, Int_t]) Char_t =
     Some \<lparr>char_type = Char_t, prefix = ''<'', delimiter = '', '', postfix = ''>''\<rparr>"
  using delimiters_total_with_default[of WChar_t "vector_t Int_t"]
    delimiters_total_with_default[of Char_t "Set_t Int_t"]
    delimiters_total_with_default[of WChar_t "Pair_t Int_t Int_t"]
    delimiters_total_with_default[of Char_t "Tuple_t [Int_t, Int_t]"]
  by (simp add: vector_t_def)

subsection \<open>The printing routine where it is well-formed\<close>

text \<open>
  A run of the routine exists for the instantiations that are well-formed only. Some
  insertions the compiler rejects although the classifier accepts the type: a
  \<^verbatim>\<open>std::list\<close> (no \<^verbatim>\<open>std::end(container) - 1\<close>), a built-in array (no \<^verbatim>\<open>back()\<close>), and a
  \<^verbatim>\<open>std::vector\<close> or a \<^verbatim>\<open>std::pair\<close> of \<^verbatim>\<open>std::vector<int>\<close> (inside namespace \<^verbatim>\<open>Printer\<close> the
  operator is not found for the element). These are the subject of the last subsection;
  here is what the routine does where it exists.
\<close>

lemma well_formed_delimiters:
  "PrintingHelper_well_formed c t \<Longrightarrow> \<exists>d. delimiters t c = Some d"
  by (auto simp: PrintingHelper_well_formed.simps)

text \<open>
  The sequence where the routine exists. For a container with at least one element, of a
  type the classifier accepts and for which \<^verbatim>\<open>PrintingHelper\<close> is well-formed, on a stream
  that is good: the operator returns and has written the prefix, padded to the field
  width, the texts of the elements joined by the separator, and the postfix.
\<close>

lemma sequence_writes_joined_elements:
  assumes "well_typed (ObjV t xs)" and "xs \<noteq> []"
    and "is_printable_as_container_v t"
    and "PrintingHelper_well_formed (char_t stream) t"
    and "good stream"
  shows "\<exists>d. delimiters t (char_t stream) = Some d \<and>
           operator_shl stream (ObjV t xs) =
             Inr (effect stream
                   (Some (pad stream (prefix d) @
                          join (delimiter d) (map (inserted_text stream) xs) @ postfix d)))"
proof -
  from assms(4) obtain d where d: "delimiters t (char_t stream) = Some d"
    using well_formed_delimiters by blast
  have "shl In_printer s x = Inr (effect s (Some (inserted_text stream x)))"
    if "x \<in> set xs" "same_format (stream\<lparr>width := 0\<rparr>) s" for x s
    using element_text[OF assms(5) well_formed_element[OF assms(4) assms(1) that(1)] that(2)] .
  from PrintingHelper_text[of xs stream "shl In_printer" "inserted_text stream", OF this d assms(4,5,2)]
  show ?thesis
    using d assms(3) by (simp add: operator_shl.simps)
qed

text \<open>The pair where the routine exists: five fragments, whatever the members are.\<close>

lemma pair_writes_five_fragments:
  assumes "well_typed (PairV a b)"
    and "PrintingHelper_pair_well_formed (char_t stream) (type_of a) (type_of b)"
    and "good stream"
  shows "operator_shl stream (PairV a b) =
           Inr (effect stream
                 (Some (pad stream ''('' @ inserted_text stream a @ '', '' @
                        inserted_text stream b @ '')'')))"
proof -
  let ?c = "char_t stream"
  from assms(2) have ia: "insertable In_printer ?c (type_of a)"
    and ib: "insertable In_printer ?c (type_of b)"
    and "delimiters (Pair_t (type_of a) (type_of b)) ?c \<noteq> None"
    by (simp_all add: PrintingHelper_pair_well_formed.simps)
  then obtain d where d: "delimiters (Pair_t (type_of a) (type_of b)) ?c = Some d"
    by auto
  then have brackets: "prefix d = ''(''" "delimiter d = '', ''" "postfix d = '')''"
    by (auto simp: delimiters_table split: if_splits)
  have a: "shl In_printer s a = Inr (effect s (Some (inserted_text stream a)))"
    if "same_format (stream\<lparr>width := 0\<rparr>) s" for s
    using element_text[OF assms(3) _ ia that] assms(1) by simp
  have b: "shl In_printer s b = Inr (effect s (Some (inserted_text stream b)))"
    if "same_format (stream\<lparr>width := 0\<rparr>) s" for s
    using element_text[OF assms(3) _ ib that] assms(1) by simp
  from PrintingHelper_pair_text[of stream "shl In_printer" a _ b _ d, OF a b d assms(2,3)]
  show ?thesis
    using brackets by (simp add: operator_shl.simps is_printable_as_container_v_def)
qed

text \<open>The sequence without elements: the operator never writes anything for it, and it
  returns where the routine exists, whatever the stream.\<close>

lemma empty_sequence_writes_nothing:
  "(\<forall>r. operator_shl stream (ObjV t []) = Inr r \<longrightarrow> r = stream) \<and>
   (is_printable_as_container_v t \<and> PrintingHelper_well_formed (char_t stream) t \<longrightarrow>
      operator_shl stream (ObjV t []) = Inr stream)"
  using well_formed_delimiters[of "char_t stream" t]
  by (auto simp: operator_shl.simps PrintingHelper_def split: if_splits option.splits)

text \<open>For a well-typed container and a good stream, the operator returns exactly when the
  classifier accepts the type and \<^verbatim>\<open>PrintingHelper\<close> is well-formed for it.\<close>

lemma sequence_operator_returns_iff:
  assumes "well_typed (ObjV t xs)" and "good stream"
  shows "(\<exists>r. operator_shl stream (ObjV t xs) = Inr r) \<longleftrightarrow>
         (is_printable_as_container_v t \<and> PrintingHelper_well_formed (char_t stream) t)"
proof
  assume "\<exists>r. operator_shl stream (ObjV t xs) = Inr r"
  then show "is_printable_as_container_v t \<and> PrintingHelper_well_formed (char_t stream) t"
    by (auto simp: operator_shl.simps PrintingHelper_def split: if_splits option.splits)
next
  assume ok: "is_printable_as_container_v t \<and> PrintingHelper_well_formed (char_t stream) t"
  then have wf: "PrintingHelper_well_formed (char_t stream) t" by simp
  have "returns (char_t stream) (\<lambda>s. shl In_printer s x)" if "x \<in> set xs" for x
    using well_formed_element[OF wf assms(1) that] by (rule shl_returns)
  then have "returns (char_t stream) (\<lambda>s. PrintingHelper (shl In_printer) s t xs)"
    using wf by (rule returns_PrintingHelper)
  from returnsD[OF this assms(2)] ok show "\<exists>r. operator_shl stream (ObjV t xs) = Inr r"
    by (auto simp: operator_shl.simps)
qed

text \<open>An insertion that returns has added characters to the buffer of its stream and
  reset the field width, or has left the stream as it was; and a stream that is not good
  is left as it was.\<close>

lemma operator_changes_buffer_and_width_only:
  "operator_shl s v = Inr s' \<Longrightarrow> \<exists>e. s' = effect s e"
  by (rule operator_shl_effect)

lemma failed_stream_is_untouched:
  assumes "\<not> good s" and "operator_shl s v = Inr s'"
  shows "s' = s"
proof (cases v)
  case (PairV a b)
  have "keeps (\<lambda>s. PrintingHelper_pair (shl In_printer) s a b)"
    by (intro keeps_PrintingHelper_pair shl_keeps)
  from keepsD[OF this assms(1), of s'] assms(2) PairV show ?thesis
    by (auto simp: operator_shl.simps split: if_splits)
next
  case (ObjV t xs)
  have "keeps (\<lambda>s. PrintingHelper (shl In_printer) s t xs)"
    by (intro keeps_PrintingHelper shl_keeps)
  from keepsD[OF this assms(1), of s'] assms(2) ObjV show ?thesis
    by (auto simp: operator_shl.simps split: if_splits)
qed (use assms(2) in \<open>auto simp: operator_shl.simps split: if_splits\<close>)

text \<open>
  Runs of the model: the vector and the pair of the unit tests; containers in containers,
  of a class of the global namespace; an empty vector and a pair of empty containers;
  strings; characters, which a narrow stream prints as numbers when they are wide; a field
  width, which pads the prefix and is used up by it; a stream that is not good; and
  insertions that are rejected.
\<close>

lemma runs_of_the_model:
  "printed (shl Call_site cout (ObjV (vector_t Int_t) [IntV 1, IntV 2, IntV 3, IntV 4])) =
     Inr ''[1, 2, 3, 4]''"
  "printed (shl Call_site cout (PairV (IntV 10) (IntV 100))) = Inr ''(10, 100)''"
  "printed (shl Call_site cout (ObjV (vector_t int_vector)
       [ObjV int_vector [IntV 1, IntV 2], ObjV int_vector [IntV 3]])) = Inr ''[[1, 2], [3]]''"
  "printed (shl Call_site cout (ObjV (vector_t Int_t) [])) = Inr []"
  "printed (shl Call_site cout (PairV (ObjV int_vector []) (ObjV int_vector []))) =
     Inr ''(, )''"
  "printed (shl Call_site cout (StrV (BasicString_t Char_t) ''text'')) = Inr ''text''"
  "printed (shl Call_site cout (StrV (Array_t Char_t 5) ''text'')) = Inr ''text''"
  "printed (shl Call_site cout (ObjV (vector_t (BasicString_t Char_t))
       [StrV (BasicString_t Char_t) ''ab'', StrV (BasicString_t Char_t) ''cd''])) =
     Inr ''[ab, cd]''"
  "printed (shl Call_site cout (ObjV (vector_t Char_t) [CharV Char_t 97, CharV Char_t 98])) =
     Inr ''[a, b]''"
  "printed (shl Call_site cout (ObjV (vector_t WChar_t) [CharV WChar_t 97, CharV WChar_t 98])) =
     Inr ''[97, 98]''"
  "printed (shl Call_site (cout\<lparr>width := 4\<rparr>) (ObjV (vector_t Int_t) [IntV 1, IntV 2])) =
     Inr ''   [1, 2]''"
  "printed (shl Call_site (cout\<lparr>width := 3, fill := CHR ''*'', adjust_left := True\<rparr>)
       (PairV (IntV 10) (IntV 100))) = Inr ''(**10, 100)''"
  "printed (shl Call_site (cout\<lparr>good := False\<rparr>) (PairV (IntV 10) (IntV 100))) = Inr []"
  "printed (shl Call_site (cout\<lparr>good := False, raises := True\<rparr>)
       (PairV (IntV 10) (IntV 100))) = Inl Thrown"
  "printed (shl Call_site cout (ObjV (Array_t Int_t 2) [IntV 1, IntV 2])) = Inl Ill_formed"
  "printed (shl Call_site cout (ObjV (vector_t (vector_t Int_t))
       [ObjV (vector_t Int_t) [IntV 1]])) = Inl Ill_formed"
  "printed (shl Call_site cout (ObjV (vector_t (Pair_t Int_t Int_t))
       [PairV (IntV 1) (IntV 2)])) = Inl Ill_formed"
  by code_simp+

subsection \<open>Printing twice\<close>




subsection \<open>Where the header does not do what the specification says\<close>

text \<open>
  Claim C1. The specification has every sequence with at least one element printed as
  prefix, joined elements, postfix: the list 1, 2 as \<^verbatim>\<open>[1, 2]\<close>. The classifier accepts every
  \<^verbatim>\<open>std::list\<close>, but \<^verbatim>\<open>PrintingHelper\<close> is ill-formed for it, whatever the elements: the
  iterators of a list have no \<^verbatim>\<open>std::end(container) - 1\<close>. The insertion is rejected by the
  compiler and nothing is printed.
\<close>

theorem list_insertion_is_ill_formed:
  "is_printable_as_container_v (list_t e) \<and>
   \<not> end_minus_one (list_t e) \<and>
   \<not> PrintingHelper_well_formed c (list_t e) \<and>
   operator_shl stream (ObjV (list_t e) xs) = Inl Ill_formed \<and>
   shl Call_site cout (ObjV (list_t Int_t) [IntV 1, IntV 2]) = Inl Ill_formed \<and>
   spec_rendering Char_t (ObjV (list_t Int_t) [IntV 1, IntV 2]) = ''[1, 2]''"
proof -
  have p: "is_printable_as_container_v (list_t e)" for e
    by (simp add: is_printable_as_container_v_def classifier_iff container_interface_def
          narrow_char_array_def wide_char_array_def string_instantiation_def list_t_def)
  have nominus: "\<not> end_minus_one (list_t e)" for e
    by (simp add: end_minus_one_def list_t_def)
  then have wf: "\<not> PrintingHelper_well_formed c (list_t e)" for c e
    by (simp add: PrintingHelper_well_formed.simps)
  have op: "operator_shl stream (ObjV (list_t e) xs) = Inl Ill_formed" for stream e xs
    using p wf by (simp add: operator_shl.simps PrintingHelper_def split: option.splits)
  have "shl Call_site cout (ObjV (list_t Int_t) [IntV 1, IntV 2]) = Inl Ill_formed"
    using p op by (simp add: shl.simps resolve_def)
  moreover have "spec_rendering Char_t (ObjV (list_t Int_t) [IntV 1, IntV 2]) = ''[1, 2]''"
    by code_simp
  ultimately show ?thesis using p nominus wf op by simp
qed

text \<open>
  Claim C3. The specification has a sequence without elements print nothing and the
  operator return, with the stream as it was. For an empty \<^verbatim>\<open>std::list\<close>, a type that the
  classifier accepts, there is no run at all: the body of \<^verbatim>\<open>PrintingHelper\<close> is compiled
  as a whole, the early return of lines 252 to 255 included, and line 259 is ill-formed
  for the iterators of a list.
\<close>

theorem empty_list_insertion_is_ill_formed:
  "is_printable_as_container_v (list_t e) \<and>
   well_typed (ObjV (list_t e) []) \<and>
   operator_shl stream (ObjV (list_t e) []) = Inl Ill_formed \<and>
   shl Call_site stream (ObjV (list_t e) []) = Inl Ill_formed \<and>
   shl Call_site stream (ObjV (list_t e) []) \<noteq> Inr stream \<and>
   spec_rendering c (ObjV (list_t e) []) = []"
proof -
  have p: "is_printable_as_container_v (list_t e)"
    by (simp add: is_printable_as_container_v_def classifier_iff container_interface_def
          narrow_char_array_def wide_char_array_def string_instantiation_def list_t_def)
  have "\<not> end_minus_one (list_t e)"
    by (simp add: end_minus_one_def list_t_def)
  then have wf: "\<not> PrintingHelper_well_formed c (list_t e)" for c
    by (simp add: PrintingHelper_well_formed.simps)
  have op: "operator_shl stream (ObjV (list_t e) []) = Inl Ill_formed"
    using p wf by (simp add: operator_shl.simps PrintingHelper_def split: option.splits)
  have call: "shl Call_site stream (ObjV (list_t e) []) = Inl Ill_formed"
    using p op by (simp add: shl.simps resolve_def)
  have "well_typed (ObjV (list_t e) [])"
    by (simp add: list_t_def)
  with p op call show ?thesis by simp
qed

text \<open>
  Claim C5. The specification has the set 1, 2, 3 printed as \<^verbatim>\<open>{1, 2, 3}\<close>. The classifier
  accepts every \<^verbatim>\<open>std::set\<close> and the delimiters have its braces, but \<^verbatim>\<open>PrintingHelper\<close> is
  ill-formed for it: the iterators of a set have no \<^verbatim>\<open>std::end(container) - 1\<close> and a set
  has no \<^verbatim>\<open>back()\<close>. The insertion is rejected by the compiler and nothing is printed.
\<close>

theorem set_insertion_is_ill_formed:
  "is_printable_as_container_v (Set_t e) \<and>
   \<not> end_minus_one (Set_t e) \<and> \<not> has_back (Set_t e) \<and>
   \<not> PrintingHelper_well_formed c (Set_t e) \<and>
   operator_shl stream (ObjV (Set_t e) xs) = Inl Ill_formed \<and>
   shl Call_site cout (ObjV (Set_t Int_t) [IntV 1, IntV 2, IntV 3]) = Inl Ill_formed \<and>
   spec_rendering Char_t (ObjV (Set_t Int_t) [IntV 1, IntV 2, IntV 3]) = ''{1, 2, 3}''"
proof -
  have p: "is_printable_as_container_v (Set_t e)" for e
    by (simp add: is_printable_as_container_v_def classifier_iff container_interface_def
          narrow_char_array_def wide_char_array_def string_instantiation_def)
  have wf: "\<not> PrintingHelper_well_formed c (Set_t e)" for c e
    by (simp add: PrintingHelper_well_formed.simps)
  have op: "operator_shl stream (ObjV (Set_t e) xs) = Inl Ill_formed" for stream e xs
    using p wf by (simp add: operator_shl.simps PrintingHelper_def split: option.splits)
  have "shl Call_site cout (ObjV (Set_t Int_t) [IntV 1, IntV 2, IntV 3]) = Inl Ill_formed"
    using p op by (simp add: shl.simps resolve_def)
  moreover have
    "spec_rendering Char_t (ObjV (Set_t Int_t) [IntV 1, IntV 2, IntV 3]) = ''{1, 2, 3}''"
    by code_simp
  ultimately show ?thesis using p wf op by (simp add: end_minus_one_def)
qed

text \<open>
  Claim C6. The specification has every pair printed as five fragments, also a pair of
  containers, which print by the same operator. For a pair whose first member is a
  \<^verbatim>\<open>std::vector<int>\<close> the second overload of \<^verbatim>\<open>PrintingHelper\<close> is ill-formed, whatever the
  second member: at line 289, inside namespace \<^verbatim>\<open>Printer\<close>, no \<^verbatim>\<open>operator<<\<close> is found for
  the vector. The insertion is rejected by the compiler and nothing is printed, neither
  for the pair of the vector 1 and the number 2 nor for a pair of two empty vectors.
\<close>

theorem pair_of_vector_insertion_is_ill_formed:
  "is_printable_as_container_v (Pair_t (vector_t Int_t) b) \<and>
   \<not> finds_operator In_printer (vector_t Int_t) \<and>
   \<not> insertable In_printer c (vector_t Int_t) \<and>
   \<not> PrintingHelper_pair_well_formed c (vector_t Int_t) b \<and>
   operator_shl stream (PairV (ObjV (vector_t Int_t) xs) y) = Inl Ill_formed \<and>
   shl Call_site cout (PairV (ObjV (vector_t Int_t) [IntV 1]) (IntV 2)) = Inl Ill_formed \<and>
   spec_rendering Char_t (PairV (ObjV (vector_t Int_t) [IntV 1]) (IntV 2)) = ''([1], 2)'' \<and>
   shl Call_site cout (PairV (ObjV (vector_t Int_t) []) (ObjV (vector_t Int_t) [])) =
     Inl Ill_formed \<and>
   spec_rendering Char_t (PairV (ObjV (vector_t Int_t) []) (ObjV (vector_t Int_t) [])) =
     ''(, )''"
proof -
  have nf: "\<not> finds_operator In_printer (vector_t Int_t)"
    by (simp add: vector_t_def)
  have ni: "\<not> insertable In_printer c (vector_t Int_t)" for c
    by (simp add: insertable.simps resolve_def std_inserter_def vector_t_def)
  then have wf: "\<not> PrintingHelper_pair_well_formed c (vector_t Int_t) b" for c b
    by (simp add: PrintingHelper_pair_well_formed.simps)
  have op: "operator_shl stream (PairV (ObjV (vector_t Int_t) xs) y) = Inl Ill_formed"
    for stream xs y
    using wf
    by (simp add: operator_shl.simps is_printable_as_container_v_def PrintingHelper_pair_def
          split: option.splits)
  have call: "shl Call_site stream (PairV (ObjV (vector_t Int_t) xs) y) = Inl Ill_formed"
    for stream xs y
    using op by (simp add: shl.simps resolve_def is_printable_as_container_v_def)
  have "spec_rendering Char_t (PairV (ObjV (vector_t Int_t) [IntV 1]) (IntV 2)) = ''([1], 2)''"
    "spec_rendering Char_t (PairV (ObjV (vector_t Int_t) []) (ObjV (vector_t Int_t) [])) =
       ''(, )''"
    by code_simp+
  with nf ni wf op call show ?thesis
    by (simp add: is_printable_as_container_v_def)
qed

text \<open>
  Claim C8. The specification has the operator return the stream it was given, for every
  stream and every value of a type the classifier accepts. The classifier accepts the
  built-in arrays of \<^verbatim>\<open>int\<close>, and for them the header's operator is the one chosen, but
  \<^verbatim>\<open>PrintingHelper\<close> is ill-formed: an array has no \<^verbatim>\<open>back()\<close> (line 265). The insertion of
  the array 1, 2, 3 is rejected by the compiler: no stream is returned.
\<close>

theorem array_insertion_does_not_return:
  "is_printable_as_container_v (Array_t Int_t n) \<and>
   resolve Call_site Char_t (Array_t Int_t n) = Container_operator \<and>
   \<not> has_back (Array_t Int_t n) \<and>
   \<not> PrintingHelper_well_formed c (Array_t Int_t n) \<and>
   operator_shl stream (ObjV (Array_t Int_t n) xs) = Inl Ill_formed \<and>
   well_typed (ObjV (Array_t Int_t 3) [IntV 1, IntV 2, IntV 3]) \<and>
   shl Call_site cout (ObjV (Array_t Int_t 3) [IntV 1, IntV 2, IntV 3]) = Inl Ill_formed \<and>
   (\<forall>stream'. shl Call_site cout (ObjV (Array_t Int_t 3) [IntV 1, IntV 2, IntV 3]) \<noteq>
      Inr stream')"
proof -
  have p: "is_printable_as_container_v (Array_t Int_t n)" for n
    by (simp add: is_printable_as_container_v_def classifier_iff container_interface_def
          narrow_char_array_def wide_char_array_def string_instantiation_def)
  have r: "resolve Call_site Char_t (Array_t Int_t n) = Container_operator" for n
    using p by (simp add: resolve_def)
  have wf: "\<not> PrintingHelper_well_formed c (Array_t Int_t n)" for c n
    by (simp add: PrintingHelper_well_formed.simps)
  have op: "operator_shl stream (ObjV (Array_t Int_t n) xs) = Inl Ill_formed" for stream n xs
    using p wf by (simp add: operator_shl.simps PrintingHelper_def split: option.splits)
  have call: "shl Call_site cout (ObjV (Array_t Int_t 3) [IntV 1, IntV 2, IntV 3]) =
      Inl Ill_formed"
    using r op by (simp add: shl.simps cout_def)
  from p r wf op call show ?thesis by simp
qed

text \<open>
  Claim C4. The specification has the tuple 1, 2 printed as \<^verbatim>\<open><1, 2>\<close>. The delimiters have
  the angle brackets of \<^verbatim>\<open>std::tuple\<close>, but the classifier has no specialization for it and a
  tuple has no \<^verbatim>\<open>begin()\<close>: the classifier is false for every tuple type, the operator is
  disabled, and the insertion of a tuple finds no \<^verbatim>\<open>operator<<\<close> at all.
\<close>

theorem tuple_insertion_is_disabled:
  "\<not> is_printable_as_container_v (Tuple_t ts) \<and>
   operator_shl stream (TupleV vs) = Inl Disabled \<and>
   shl Call_site stream (TupleV vs) = Inl No_match \<and>
   delimiters (Tuple_t ts) Char_t =
     Some \<lparr>char_type = Char_t, prefix = ''<'', delimiter = '', '', postfix = ''>''\<rparr> \<and>
   spec_rendering Char_t (TupleV [IntV 1, IntV 2]) = ''<1, 2>''"
proof -
  have p: "\<not> is_printable_as_container_v (Tuple_t ts)" for ts
    by (simp add: is_printable_as_container_v_def)
  have "spec_rendering Char_t (TupleV [IntV 1, IntV 2]) = ''<1, 2>''"
    by code_simp
  with p show ?thesis
    by (simp add: operator_shl.simps shl.simps resolve_def delimiters_table std_inserter_def)
qed

end
